theory Spec2Isabelle
  imports Complex_Main
begin

section \<open>Values, strings and numbers of the JavaScript runtime\<close>

text \<open>
  A shallow embedding of the Express application: \<^verbatim>\<open>middleware.js\<close> (the cookie/JWT
  gate), \<^verbatim>\<open>router.js\<close> (the potion routes) and the auth routes (register, login).

  Conventions.
  \<^item> A JavaScript string is a \<open>string\<close>, one \<open>char\<close> per character. The French
    messages of the source are written in ASCII: accented letters without their accent, the
    typographic apostrophe as \<open>'\<close>.
  \<^item> A number is a \<open>jsnum\<close>: \<open>NaN\<close>, the two infinities, or a finite value, kept as
    an exact rational (every finite double is one; comparison of doubles is comparison of
    these rationals).
  \<^item> \<open>undefined\<close> is \<open>None\<close>; a parsed JSON value is a \<open>json\<close>.
  \<^item> A call into a library that can throw returns an \<open>attempt\<close>; the libraries themselves
    (\<^verbatim>\<open>jsonwebtoken\<close>, the string parser behind \<^verbatim>\<open>parseFloat\<close>) are parameters of the
    functions that call them.
\<close>

datatype json =
    JNull
  | JBool bool
  | JNum rat
  | JStr string
  | JArr "json list"
  | JObj "(string \<times> json) list"

datatype jsnum = NaN | NegInf | Fin rat | PosInf

datatype 'a attempt = Returns 'a | Throws string

text \<open>JavaScript truthiness of a value that may be \<open>undefined\<close>, and \<^verbatim>\<open>typeof\<close>.\<close>

fun truthy :: "json option \<Rightarrow> bool" where
  "truthy None = False"
| "truthy (Some JNull) = False"
| "truthy (Some (JBool b)) = b"
| "truthy (Some (JNum n)) = (n \<noteq> 0)"
| "truthy (Some (JStr s)) = (s \<noteq> [])"
| "truthy (Some (JArr xs)) = True"
| "truthy (Some (JObj fs)) = True"

fun typeof :: "json option \<Rightarrow> string" where
  "typeof None = ''undefined''"
| "typeof (Some JNull) = ''object''"
| "typeof (Some (JBool b)) = ''boolean''"
| "typeof (Some (JNum n)) = ''number''"
| "typeof (Some (JStr s)) = ''string''"
| "typeof (Some (JArr xs)) = ''object''"
| "typeof (Some (JObj fs)) = ''object''"

fun the_string :: "json option \<Rightarrow> string" where
  "the_string (Some (JStr s)) = s"
| "the_string v = []"

text \<open>
  \<^verbatim>\<open>String.prototype.trim\<close> (and the validator's \<^verbatim>\<open>trim\<close>): white space and line
  terminators are removed at both ends. Among the characters below 256 these are tab, line
  feed, vertical tab, form feed, carriage return, space and the no-break space.
\<close>

definition is_space :: "char \<Rightarrow> bool" where
  "is_space c = (of_char c \<in> {9, 10, 11, 12, 13, 32, 160 :: nat})"

definition trim :: "string \<Rightarrow> string" where
  "trim s = rev (dropWhile is_space (rev (dropWhile is_space s)))"

section \<open>Requests and responses\<close>

text \<open>
  The claims a verified token decodes to: \<^verbatim>\<open>{ id, name }\<close>, as \<^verbatim>\<open>jwt.sign\<close> is given
  them at login. (The library adds \<^verbatim>\<open>iat\<close> and \<^verbatim>\<open>exp\<close>; no code of the repository
  reads them.)
\<close>

record claims =
  claims_id :: nat
  claims_name :: string

text \<open>
  The process environment, read once when a module is loaded. \<^verbatim>\<open>middleware.js\<close> takes
  \<^verbatim>\<open>JWT_SECRET\<close> as it is (it may be undefined); the auth routes fall back to defaults.
\<close>

record env =
  env_JWT_SECRET :: "string option"
  env_COOKIE_NAME :: "string option"

text \<open>
  An Express request: the cookies cookie-parser produced (none at all when the parser is not
  installed), the query string, the route parameters, the parsed body, the \<^verbatim>\<open>bodyString\<close>
  method the \<^verbatim>\<open>sanitize\<close> middleware installs, and \<^verbatim>\<open>req.user\<close>.
\<close>

record 'b request =
  cookies :: "(string \<rightharpoonup> json) option"
  query :: "string \<rightharpoonup> string"
  params :: "string \<rightharpoonup> string"
  body :: 'b
  bodyString :: "string \<Rightarrow> string option"
  user :: "claims option"

text \<open>
  Modelled from the spec: \<^verbatim>\<open>potion.model.js\<close> is not among the sources. A potion has the
  fields of the spec's data model (section 3), with \<open>potion_id\<close> for the generated
  \<^verbatim>\<open>_id\<close> and the two ratings \<^verbatim>\<open>ratings.strength\<close>, \<^verbatim>\<open>ratings.flavor\<close> side by side.
\<close>

record potion =
  potion_id :: nat
  name :: string
  price :: rat
  score :: rat
  ingredients :: "string list"
  strength :: rat
  flavor :: rat
  tryDate :: string
  categories :: "string list"
  vendor_id :: string

text \<open>
  Modelled from the spec: \<^verbatim>\<open>user.model.js\<close> is not among the sources. A user has a
  generated \<^verbatim>\<open>_id\<close> (\<open>uid\<close>), a \<^verbatim>\<open>name\<close> (\<open>uname\<close>) and the stored hash of the
  password.
\<close>

record user =
  uid :: nat
  uname :: string
  password :: string

record validation_error =
  field :: string
  msg :: string

record cookie =
  cookie_name :: string
  cookie_value :: string
  httpOnly :: bool
  sameSite :: string
  secure :: bool
  maxAge :: nat

text \<open>The JSON bodies the handlers send, one constructor per shape.\<close>

text \<open>
  What \<^verbatim>\<open>Potion.aggregate\<close> resolves to: \<^verbatim>\<open>[{_id, averageScore}]\<close>,
  \<^verbatim>\<open>[{name, ratio}]\<close>, or whatever the caller-built group stage of the search computes.
\<close>

datatype agg_result =
    Groups "(string \<times> rat) list"
  | Ratios "(string \<times> rat) list"
  | SearchResult json

datatype resp_body =
    Error string
  | Errors "validation_error list"
  | Message string
  | Potions "potion list"
  | Names "string list"
  | SavedPotion potion
  | DistinctCategories nat
  | Aggregation agg_result

record response =
  status :: nat
  sent :: resp_body
  set_cookie :: "cookie option"

text \<open>\<^verbatim>\<open>res.status(code).json(b)\<close>; \<^verbatim>\<open>res.json(b)\<close> alone answers 200.\<close>

definition status_json :: "nat \<Rightarrow> resp_body \<Rightarrow> response" where
  "status_json code b = \<lparr>status = code, sent = b, set_cookie = None\<rparr>"

definition res_json :: "resp_body \<Rightarrow> response" where
  "res_json b = status_json 200 b"

section \<open>The document store\<close>

text \<open>
  Mongoose and MongoDB are not code of the repository. The store is modelled as the two
  collections, in insertion order, and \<open>issued\<close>, a ghost record of the calls made to the
  models. Every operation takes \<open>fault\<close>: the error the store raises for this call when it
  fails for a reason outside the model (connection lost, a schema validation failure of
  \<^verbatim>\<open>save\<close>), or \<open>None\<close> when it works. A failing call changes no collection.
\<close>

datatype store_error =
    DuplicateKey
  | CastError string
  | ValidationFailed string
  | StoreFailure string

text \<open>\<^verbatim>\<open>err.code\<close> (11000 is MongoDB's duplicate key error) and \<^verbatim>\<open>err.message\<close>.\<close>

fun err_code :: "store_error \<Rightarrow> nat option" where
  "err_code DuplicateKey = Some 11000"
| "err_code (CastError m) = None"
| "err_code (ValidationFailed m) = None"
| "err_code (StoreFailure m) = None"

fun err_message :: "store_error \<Rightarrow> string" where
  "err_message DuplicateKey = ''E11000 duplicate key error collection''"
| "err_message (CastError m) = m"
| "err_message (ValidationFailed m) = m"
| "err_message (StoreFailure m) = m"

text \<open>
  The query filters the router builds: \<^verbatim>\<open>{}\<close>, \<^verbatim>\<open>{ vendor_id: v }\<close> and
  \<^verbatim>\<open>{ price: { $gte: lo, $lte: hi } }\<close>; and its aggregation pipelines, the last one with
  the four strings the search handler builds from the query.
\<close>

datatype filter_spec =
    Everything
  | VendorIs string
  | PriceBetween jsnum jsnum

datatype pipeline =
    AverageScoreByVendor
  | AverageScoreByCategory
  | StrengthFlavorRatio
  | GroupStage string string string string

datatype store_call =
    PotionFind filter_spec
  | PotionDistinct string
  | PotionAggregate pipeline
  | PotionSave potion
  | UserSave string
  | UserFindOne "string option"

record mongo =
  potions :: "potion list"
  users :: "user list"
  issued :: "store_call list"

definition log_call :: "store_call \<Rightarrow> mongo \<Rightarrow> mongo" where
  "log_call c s = s\<lparr>issued := issued s @ [c]\<rparr>"

text \<open>Comparison of doubles: false as soon as one side is \<open>NaN\<close>.\<close>

fun num_le :: "jsnum \<Rightarrow> jsnum \<Rightarrow> bool" where
  "num_le NaN y = False"
| "num_le x NaN = False"
| "num_le NegInf y = True"
| "num_le x PosInf = True"
| "num_le (Fin a) (Fin b) = (a \<le> b)"
| "num_le (Fin a) NegInf = False"
| "num_le PosInf y = False"

fun matches :: "filter_spec \<Rightarrow> potion \<Rightarrow> bool" where
  "matches Everything p = True"
| "matches (VendorIs v) p = (vendor_id p = v)"
| "matches (PriceBetween lo hi) p = (num_le lo (Fin (price p)) \<and> num_le (Fin (price p)) hi)"

text \<open>
  Modelled from the spec: the schema of \<^verbatim>\<open>potion.model.js\<close> is missing; the spec has
  \<^verbatim>\<open>price\<close> a number and invalid bounds of the price range a query error (section 4.5).
  Mongoose casts the bounds of a filter on a numeric path before it sends the query, and a
  \<open>NaN\<close> does not cast.
\<close>

fun cast_filter :: "filter_spec \<Rightarrow> store_error + filter_spec" where
  "cast_filter (PriceBetween lo hi) =
     (if lo = NaN \<or> hi = NaN
      then Inl (CastError ''Cast to Number failed for value NaN at path price'')
      else Inr (PriceBetween lo hi))"
| "cast_filter f = Inr f"

text \<open>\<^verbatim>\<open>Potion.find(filter)\<close>\<close>

definition Potion_find ::
  "store_error option \<Rightarrow> filter_spec \<Rightarrow> mongo \<Rightarrow> (store_error + potion list) \<times> mongo" where
  "Potion_find fault f s =
     (case cast_filter f of
        Inl err \<Rightarrow> (Inl err, log_call (PotionFind f) s)
      | Inr f' \<Rightarrow>
          (case fault of
             Some err \<Rightarrow> (Inl err, log_call (PotionFind f) s)
           | None \<Rightarrow> (Inr (filter (matches f') (potions s)), log_call (PotionFind f) s)))"

text \<open>\<^verbatim>\<open>Potion.distinct('categories')\<close>: the values of the array field, each once.\<close>

definition Potion_distinct_categories ::
  "store_error option \<Rightarrow> mongo \<Rightarrow> (store_error + string list) \<times> mongo" where
  "Potion_distinct_categories fault s =
     (case fault of
        Some err \<Rightarrow> (Inl err, log_call (PotionDistinct ''categories'') s)
      | None \<Rightarrow> (Inr (remdups (concat (map categories (potions s)))),
                 log_call (PotionDistinct ''categories'') s))"

subsection \<open>Aggregation\<close>

text \<open>
  \<^verbatim>\<open>{ $unwind: "$categories" }\<close>: one document per element of the array, the element in
  the place of the array; a document with no category yields none. Only the category and
  the score are read by the stage that follows, so a row is that pair.
\<close>

definition unwind_categories :: "potion list \<Rightarrow> (string \<times> rat) list" where
  "unwind_categories ps = concat (map (\<lambda>p. map (\<lambda>c. (c, score p)) (categories p)) ps)"

text \<open>\<^verbatim>\<open>$avg\<close> over the rows of a group (never empty), in exact arithmetic.\<close>

definition avg :: "rat list \<Rightarrow> rat" where
  "avg xs = sum_list xs / of_nat (length xs)"

text \<open>
  \<^verbatim>\<open>{ $group: { _id: key, averageScore: { $avg: "$score" } } }\<close> over rows \<open>(key, score)\<close>:
  one output document per distinct key (MongoDB promises no order among them; the model
  lists them as \<open>remdups\<close> leaves the keys).
\<close>

definition group_avg :: "(string \<times> rat) list \<Rightarrow> (string \<times> rat) list" where
  "group_avg rows =
     map (\<lambda>k. (k, avg (map snd (filter (\<lambda>r. fst r = k) rows)))) (remdups (map fst rows))"

text \<open>
  \<^verbatim>\<open>$divide\<close> of the two ratings; MongoDB fails the whole aggregation on a zero divisor.
\<close>

definition strength_flavor_ratio :: "potion list \<Rightarrow> store_error + (string \<times> rat) list" where
  "strength_flavor_ratio ps =
     (if list_ex (\<lambda>p. flavor p = 0) ps
      then Inl (StoreFailure ''can't $divide by zero'')
      else Inr (map (\<lambda>p. (name p, strength p / flavor p)) ps))"

text \<open>
  \<open>group_engine\<close> stands for what MongoDB computes for the group stage of the search, whose
  key, output field, accumulator and operand are strings of the caller: it reads the
  collection and returns rows or fails.
\<close>

type_synonym group_engine =
  "string \<Rightarrow> string \<Rightarrow> string \<Rightarrow> string \<Rightarrow> potion list \<Rightarrow> store_error + json"

fun run_pipeline :: "group_engine \<Rightarrow> pipeline \<Rightarrow> potion list \<Rightarrow> store_error + agg_result" where
  "run_pipeline g AverageScoreByVendor ps =
     Inr (Groups (group_avg (map (\<lambda>p. (vendor_id p, score p)) ps)))"
| "run_pipeline g AverageScoreByCategory ps =
     Inr (Groups (group_avg (unwind_categories ps)))"
| "run_pipeline g StrengthFlavorRatio ps =
     (case strength_flavor_ratio ps of Inl err \<Rightarrow> Inl err | Inr rs \<Rightarrow> Inr (Ratios rs))"
| "run_pipeline g (GroupStage key out acc operand) ps =
     (case g key out acc operand ps of Inl err \<Rightarrow> Inl err | Inr j \<Rightarrow> Inr (SearchResult j))"

text \<open>\<^verbatim>\<open>Potion.aggregate(pipeline)\<close>\<close>

definition Potion_aggregate ::
  "group_engine \<Rightarrow> store_error option \<Rightarrow> pipeline \<Rightarrow> mongo
     \<Rightarrow> (store_error + agg_result) \<times> mongo" where
  "Potion_aggregate g fault pl s =
     (case fault of
        Some err \<Rightarrow> (Inl err, log_call (PotionAggregate pl) s)
      | None \<Rightarrow> (run_pipeline g pl (potions s), log_call (PotionAggregate pl) s))"

subsection \<open>Writes\<close>

text \<open>
  \<^verbatim>\<open>new Potion(req.body).save()\<close>: the document gets the \<^verbatim>\<open>_id\<close> the driver generated
  (\<open>oid\<close>) and is appended. What the absent schema refuses arrives as a \<open>fault\<close>.
\<close>

definition Potion_save ::
  "store_error option \<Rightarrow> nat \<Rightarrow> potion \<Rightarrow> mongo \<Rightarrow> (store_error + potion) \<times> mongo" where
  "Potion_save fault oid p s =
     (case fault of
        Some err \<Rightarrow> (Inl err, log_call (PotionSave p) s)
      | None \<Rightarrow>
          (Inr (p\<lparr>potion_id := oid\<rparr>),
           log_call (PotionSave p) (s\<lparr>potions := potions s @ [p\<lparr>potion_id := oid\<rparr>]\<rparr>)))"

text \<open>
  Modelled from the spec: the methods of \<^verbatim>\<open>user.model.js\<close>, which is not among the sources:
  the salted hash applied to the password before it is persisted, and
  \<^verbatim>\<open>comparePassword\<close>, a boolean (section 4.1).
\<close>

record user_model =
  hash_password :: "string \<Rightarrow> string"
  comparePassword :: "user \<Rightarrow> string option \<Rightarrow> bool"

text \<open>
  Modelled from the spec: \<^verbatim>\<open>new User({ name, password }).save()\<close>. The store enforces
  the uniqueness of the name (section 3): saving a name that is taken fails with the
  duplicate key error and changes nothing.
\<close>

definition User_save ::
  "user_model \<Rightarrow> store_error option \<Rightarrow> nat \<Rightarrow> string \<Rightarrow> string \<Rightarrow> mongo
     \<Rightarrow> (store_error + user) \<times> mongo" where
  "User_save um fault oid n pw s =
     (case fault of
        Some err \<Rightarrow> (Inl err, log_call (UserSave n) s)
      | None \<Rightarrow>
          if list_ex (\<lambda>u. uname u = n) (users s)
          then (Inl DuplicateKey, log_call (UserSave n) s)
          else
            (Inr \<lparr>uid = oid, uname = n, password = hash_password um pw\<rparr>,
             log_call (UserSave n)
               (s\<lparr>users := users s @ [\<lparr>uid = oid, uname = n, password = hash_password um pw\<rparr>]\<rparr>)))"

text \<open>
  \<^verbatim>\<open>User.findOne({ name })\<close>: the first user of that name, if any. Every stored user has a
  name, so the \<^verbatim>\<open>null\<close> that \<^verbatim>\<open>bodyString\<close> gives for a missing field finds nobody.
\<close>

definition User_findOne ::
  "store_error option \<Rightarrow> string option \<Rightarrow> mongo \<Rightarrow> (store_error + user option) \<times> mongo" where
  "User_findOne fault n s =
     (case fault of
        Some err \<Rightarrow> (Inl err, log_call (UserFindOne n) s)
      | None \<Rightarrow> (Inr (find (\<lambda>u. Some (uname u) = n) (users s)), log_call (UserFindOne n) s))"

section \<open>The auth middleware (middleware.js)\<close>

definition COOKIE_NAME :: string where
  "COOKIE_NAME = ''demo_node+mongo_token''"

definition msg_token_missing :: string where
  "msg_token_missing = ''Token d'authentification manquant ou invalide''"

definition msg_session_expired :: string where
  "msg_session_expired = ''Session expiree, veuillez vous reconnecter.''"

definition msg_token_invalid :: string where
  "msg_token_invalid = ''Jeton non valide.''"

definition msg_auth_error :: string where
  "msg_auth_error = ''Erreur d'authentification''"

text \<open>What a middleware does with a request: it answers, or it calls \<^verbatim>\<open>next()\<close>.\<close>

datatype 'b passage = Responded response | Next "'b request"

text \<open>\<^verbatim>\<open>req.cookies?.[COOKIE_NAME]\<close>\<close>

definition cookie_of :: "'b request \<Rightarrow> string \<Rightarrow> json option" where
  "cookie_of req n = (case cookies req of None \<Rightarrow> None | Some cs \<Rightarrow> cs n)"

text \<open>
  \<open>jwt_verify\<close> is \<^verbatim>\<open>jwt.verify\<close>: given the token and the secret it returns the decoded
  claims or throws an error, of which the middleware reads the \<^verbatim>\<open>name\<close>. The call of
  \<^verbatim>\<open>next()\<close> stands inside the same \<^verbatim>\<open>try\<close>; Express hands an error of the next
  handler to its error handlers and not back to the caller of \<^verbatim>\<open>next\<close>, so the
  \<^verbatim>\<open>catch\<close> sees the errors of \<^verbatim>\<open>jwt.verify\<close> only.
\<close>

definition authMiddleware ::
  "(string \<Rightarrow> string option \<Rightarrow> claims attempt) \<Rightarrow> env \<Rightarrow> 'b request \<Rightarrow> 'b passage" where
  "authMiddleware jwt_verify e req =
     (let token = cookie_of req COOKIE_NAME in
      if \<not> truthy token \<or> typeof token \<noteq> ''string'' \<or> trim (the_string token) = []
      then Responded (status_json 401 (Error msg_token_missing))
      else
        (case jwt_verify (the_string token) (env_JWT_SECRET e) of
           Returns decoded \<Rightarrow> Next (req\<lparr>user := Some decoded\<rparr>)
         | Throws err_name \<Rightarrow>
             if err_name = ''TokenExpiredError''
             then Responded (status_json 401 (Error msg_session_expired))
             else if err_name = ''JsonWebTokenError''
             then Responded (status_json 401 (Error msg_token_invalid))
             else Responded (status_json 500 (Error msg_auth_error))))"


section \<open>The potion routes (router.js)\<close>

text \<open>
  A handler takes the request and the store and gives the response and the store after it.
  Each \<^verbatim>\<open>try { ... } catch (err) { ... }\<close> of the source is the case distinction on the
  result of the store call.
\<close>

text \<open>\<^verbatim>\<open>GET /potions\<close>\<close>

definition get_potions :: "store_error option \<Rightarrow> 'b request \<Rightarrow> mongo \<Rightarrow> response \<times> mongo" where
  "get_potions fault req s =
     (case Potion_find fault Everything s of
        (Inr ps, s') \<Rightarrow> (res_json (Potions ps), s')
      | (Inl err, s') \<Rightarrow> (status_json 500 (Error (err_message err)), s'))"

text \<open>\<^verbatim>\<open>GET /potions/names\<close>\<close>

definition get_names :: "store_error option \<Rightarrow> 'b request \<Rightarrow> mongo \<Rightarrow> response \<times> mongo" where
  "get_names fault req s =
     (case Potion_find fault Everything s of
        (Inr names, s') \<Rightarrow> (res_json (Names (map name names)), s')
      | (Inl err, s') \<Rightarrow> (status_json 500 (Error (err_message err)), s'))"

text \<open>
  \<^verbatim>\<open>GET /potions/vendor/:vendor_id\<close>. The route matches only with the parameter present.
\<close>

definition get_vendor :: "store_error option \<Rightarrow> 'b request \<Rightarrow> mongo \<Rightarrow> response \<times> mongo" where
  "get_vendor fault req s =
     (let vendorId = (case params req ''vendor_id'' of None \<Rightarrow> [] | Some v \<Rightarrow> v) in
      case Potion_find fault (VendorIs vendorId) s of
        (Inr ps, s') \<Rightarrow> (res_json (Potions ps), s')
      | (Inl err, s') \<Rightarrow> (status_json 500 (Error (err_message err)), s'))"

text \<open>
  \<^verbatim>\<open>parseFloat\<close> of a query parameter: \<open>NaN\<close> for \<^verbatim>\<open>undefined\<close>, otherwise what the
  runtime's parser \<open>str_to_num\<close> reads at the start of the string (\<open>NaN\<close> when no number
  starts it).
\<close>

definition parseFloat :: "(string \<Rightarrow> jsnum) \<Rightarrow> string option \<Rightarrow> jsnum" where
  "parseFloat str_to_num v = (case v of None \<Rightarrow> NaN | Some x \<Rightarrow> str_to_num x)"

text \<open>\<^verbatim>\<open>GET /potions/price-range?min=X&max=Y\<close>\<close>

definition get_price_range ::
  "(string \<Rightarrow> jsnum) \<Rightarrow> store_error option \<Rightarrow> 'b request \<Rightarrow> mongo \<Rightarrow> response \<times> mongo" where
  "get_price_range str_to_num fault req s =
     (let min = query req ''min''; max = query req ''max'' in
      case Potion_find fault
             (PriceBetween (parseFloat str_to_num min) (parseFloat str_to_num max)) s of
        (Inr ps, s') \<Rightarrow> (res_json (Potions ps), s')
      | (Inl err, s') \<Rightarrow> (status_json 500 (Error (err_message err)), s'))"

text \<open>\<^verbatim>\<open>GET /potions/analytics/distinct-categories\<close>\<close>

definition get_distinct_categories ::
  "store_error option \<Rightarrow> 'b request \<Rightarrow> mongo \<Rightarrow> response \<times> mongo" where
  "get_distinct_categories fault req s =
     (case Potion_distinct_categories fault s of
        (Inr cs, s') \<Rightarrow> (res_json (DistinctCategories (length cs)), s')
      | (Inl err, s') \<Rightarrow> (status_json 500 (Error (err_message err)), s'))"

text \<open>
  The three analytics routes with a fixed pipeline:
  \<^verbatim>\<open>average-score-by-vendor\<close>, \<^verbatim>\<open>average-score-by-category\<close>, \<^verbatim>\<open>strength-flavor-ratio\<close>.
\<close>

definition get_average_score_by_vendor ::
  "group_engine \<Rightarrow> store_error option \<Rightarrow> 'b request \<Rightarrow> mongo \<Rightarrow> response \<times> mongo" where
  "get_average_score_by_vendor g fault req s =
     (case Potion_aggregate g fault AverageScoreByVendor s of
        (Inr r, s') \<Rightarrow> (res_json (Aggregation r), s')
      | (Inl err, s') \<Rightarrow> (status_json 500 (Error (err_message err)), s'))"

definition get_average_score_by_category ::
  "group_engine \<Rightarrow> store_error option \<Rightarrow> 'b request \<Rightarrow> mongo \<Rightarrow> response \<times> mongo" where
  "get_average_score_by_category g fault req s =
     (case Potion_aggregate g fault AverageScoreByCategory s of
        (Inr r, s') \<Rightarrow> (res_json (Aggregation r), s')
      | (Inl err, s') \<Rightarrow> (status_json 500 (Error (err_message err)), s'))"

definition get_strength_flavor_ratio ::
  "group_engine \<Rightarrow> store_error option \<Rightarrow> 'b request \<Rightarrow> mongo \<Rightarrow> response \<times> mongo" where
  "get_strength_flavor_ratio g fault req s =
     (case Potion_aggregate g fault StrengthFlavorRatio s of
        (Inr r, s') \<Rightarrow> (res_json (Aggregation r), s')
      | (Inl err, s') \<Rightarrow> (status_json 500 (Error (err_message err)), s'))"

text \<open>
  \<^verbatim>\<open>GET /potions/analytics/search\<close>. A query parameter is falsy when it is absent or the
  empty string.
\<close>

definition falsy :: "string option \<Rightarrow> bool" where
  "falsy v = (case v of None \<Rightarrow> True | Some x \<Rightarrow> x = [])"

definition msg_missing_params :: string where
  "msg_missing_params = ''Missing required query parameters: groupBy, metric, field''"

definition get_search ::
  "group_engine \<Rightarrow> store_error option \<Rightarrow> 'b request \<Rightarrow> mongo \<Rightarrow> response \<times> mongo" where
  "get_search g fault req s =
     (let groupBy = query req ''groupBy''; metric = query req ''metric'';
          field_param = query req ''field'' in
      if falsy groupBy \<or> falsy metric \<or> falsy field_param
      then (status_json 400 (Error msg_missing_params), s)
      else
        (let aggregation =
               GroupStage (''$'' @ the groupBy) (the metric) (''$'' @ the metric)
                 (''$'' @ the field_param) in
         case Potion_aggregate g fault aggregation s of
           (Inr r, s') \<Rightarrow> (res_json (Aggregation r), s')
         | (Inl err, s') \<Rightarrow> (status_json 500 (Error (err_message err)), s')))"

text \<open>
  \<^verbatim>\<open>POST /potions\<close>: the handler behind the auth middleware. Its \<^verbatim>\<open>catch\<close> answers 400
  whatever made \<^verbatim>\<open>save\<close> fail.
\<close>

definition create_potion ::
  "store_error option \<Rightarrow> nat \<Rightarrow> potion request \<Rightarrow> mongo \<Rightarrow> response \<times> mongo" where
  "create_potion fault oid req s =
     (case Potion_save fault oid (body req) s of
        (Inr savedPotion, s') \<Rightarrow> (status_json 201 (SavedPotion savedPotion), s')
      | (Inl err, s') \<Rightarrow> (status_json 400 (Error (err_message err)), s'))"

definition post_potions ::
  "(string \<Rightarrow> string option \<Rightarrow> claims attempt) \<Rightarrow> env \<Rightarrow> store_error option \<Rightarrow> nat
     \<Rightarrow> potion request \<Rightarrow> mongo \<Rightarrow> response \<times> mongo" where
  "post_potions jwt_verify e fault oid req s =
     (case authMiddleware jwt_verify e req of
        Responded r \<Rightarrow> (r, s)
      | Next req' \<Rightarrow> create_potion fault oid req' s)"


section \<open>The auth routes (register, login)\<close>

text \<open>
  \<^verbatim>\<open>process.env.X || default\<close>: the default also replaces the empty string.
\<close>

definition or_default :: "string option \<Rightarrow> string \<Rightarrow> string" where
  "or_default v d = (case v of None \<Rightarrow> d | Some x \<Rightarrow> if x = [] then d else x)"

definition auth_JWT_SECRET :: "env \<Rightarrow> string" where
  "auth_JWT_SECRET e = or_default (env_JWT_SECRET e) ''dev_secret''"

definition auth_COOKIE_NAME :: "env \<Rightarrow> string" where
  "auth_COOKIE_NAME e = or_default (env_COOKIE_NAME e) ''demo_node+mongo_token''"

subsection \<open>The validation chains of POST /auth/register\<close>

text \<open>
  The validator's \<^verbatim>\<open>escape\<close> replaces each of \<^verbatim>\<open>& " ' < > / \\<close> and the backquote by
  its HTML entity.
\<close>

definition escape_char :: "char \<Rightarrow> string" where
  "escape_char c =
     (if c = CHR ''&'' then ''&amp;''
      else if c = CHR 0x22 then ''&quot;''
      else if c = CHR 0x27 then ''&#x27;''
      else if c = CHR ''<'' then ''&lt;''
      else if c = CHR ''>'' then ''&gt;''
      else if c = CHR ''/'' then ''&#x2F;''
      else if c = CHR 0x5C then ''&#x5C;''
      else if c = CHR 0x60 then ''&#96;''
      else [c])"

definition escape :: "string \<Rightarrow> string" where
  "escape x = concat (map escape_char x)"

text \<open>A field that is absent from the body is validated as the empty string.\<close>

definition toString :: "string option \<Rightarrow> string" where
  "toString v = (case v of None \<Rightarrow> [] | Some x \<Rightarrow> x)"

definition msg_name_required :: string where
  "msg_name_required = ''Le nom d'utilisateur est requis.''"

definition msg_name_length :: string where
  "msg_name_length = ''Doit faire entre 3 et 30 caracteres.''"

definition msg_password_required :: string where
  "msg_password_required = ''Le mot de passe est requis.''"

definition msg_password_length :: string where
  "msg_password_length = ''Minimum 6 caracteres.''"

text \<open>
  \<^verbatim>\<open>body('name').trim().escape().notEmpty().withMessage(..).isLength({ min: 3, max: 30 }).withMessage(..)\<close>:
  the sanitized value, and the errors of the validators that fail on it. A chain does not
  stop at its first error.
\<close>

definition name_chain :: "string option \<Rightarrow> string \<times> validation_error list" where
  "name_chain v =
     (let x = escape (trim (toString v)) in
      (x,
       (if x \<noteq> [] then [] else [\<lparr>field = ''name'', msg = msg_name_required\<rparr>])
       @ (if 3 \<le> length x \<and> length x \<le> 30 then []
          else [\<lparr>field = ''name'', msg = msg_name_length\<rparr>])))"

text \<open>
  \<^verbatim>\<open>body('password').trim().notEmpty().withMessage(..).isLength({ min: 6 }).withMessage(..)\<close>
\<close>

definition password_chain :: "string option \<Rightarrow> string \<times> validation_error list" where
  "password_chain v =
     (let x = trim (toString v) in
      (x,
       (if x \<noteq> [] then [] else [\<lparr>field = ''password'', msg = msg_password_required\<rparr>])
       @ (if 6 \<le> length x then []
          else [\<lparr>field = ''password'', msg = msg_password_length\<rparr>])))"

definition msg_user_created :: string where
  "msg_user_created = ''Utilisateur cree''"

definition msg_system_error :: string where
  "msg_system_error = ''Erreur systeme''"

text \<open>
  \<^verbatim>\<open>POST /auth/register\<close>: the two chains run first and leave the sanitized values in the
  body; the handler answers 400 with all their errors, or saves the user.
\<close>

definition register ::
  "user_model \<Rightarrow> store_error option \<Rightarrow> nat \<Rightarrow> (string \<rightharpoonup> string) request \<Rightarrow> mongo
     \<Rightarrow> response \<times> mongo" where
  "register um fault oid req s =
     (let (name', name_errors) = name_chain (body req ''name'');
          (password', password_errors) = password_chain (body req ''password'');
          errors = name_errors @ password_errors in
      if errors \<noteq> [] then (status_json 400 (Errors errors), s)
      else
        (case User_save um fault oid name' password' s of
           (Inr u, s') \<Rightarrow> (status_json 201 (Message msg_user_created), s')
         | (Inl err, s') \<Rightarrow>
             if err_code err = Some 11000 then (status_json 500 (Error msg_system_error), s')
             else (status_json 400 (Error (err_message err)), s')))"

subsection \<open>POST /auth/login\<close>

definition msg_invalid_credentials :: string where
  "msg_invalid_credentials = ''Identifiants invalides''"

definition msg_logged_in :: string where
  "msg_logged_in = ''Connecte avec succes''"

text \<open>
  \<open>jwt_sign\<close> is \<^verbatim>\<open>jwt.sign(payload, secret, { expiresIn })\<close>. The handler has no
  \<^verbatim>\<open>try\<close>: an error of \<^verbatim>\<open>findOne\<close> leaves it as a rejection (\<open>Inl\<close>), and no response
  is written by this code.
\<close>

definition login ::
  "user_model \<Rightarrow> (claims \<Rightarrow> string \<Rightarrow> string \<Rightarrow> string) \<Rightarrow> env \<Rightarrow> store_error option
     \<Rightarrow> 'b request \<Rightarrow> mongo \<Rightarrow> (store_error + response) \<times> mongo" where
  "login um jwt_sign e fault req s =
     (let name' = bodyString req ''name''; password' = bodyString req ''password'' in
      case User_findOne fault name' s of
        (Inl err, s') \<Rightarrow> (Inl err, s')
      | (Inr found, s') \<Rightarrow>
          (case found of
             None \<Rightarrow> (Inr (status_json 401 (Error msg_invalid_credentials)), s')
           | Some u \<Rightarrow>
               if \<not> comparePassword um u password'
               then (Inr (status_json 401 (Error msg_invalid_credentials)), s')
               else
                 (let token =
                        jwt_sign \<lparr>claims_id = uid u, claims_name = uname u\<rparr>
                          (auth_JWT_SECRET e) ''1d'' in
                  (Inr ((res_json (Message msg_logged_in))
                         \<lparr>set_cookie :=
                            Some \<lparr>cookie_name = auth_COOKIE_NAME e, cookie_value = token,
                                  httpOnly = True, sameSite = ''strict'', secure = False,
                                  maxAge = 24 * 60 * 60 * 1000\<rparr>\<rparr>),
                   s'))))"


section \<open>Sample data\<close>

text \<open>Concrete libraries, requests and stores, on which the theorems below are run.\<close>

definition demo_verify :: "string \<Rightarrow> string option \<Rightarrow> claims attempt" where
  "demo_verify t k =
     (if t = ''good'' then Returns \<lparr>claims_id = 7, claims_name = ''alice''\<rparr>
      else if t = ''old'' then Throws ''TokenExpiredError''
      else if t = ''forged'' then Throws ''JsonWebTokenError''
      else Throws ''NotBeforeError'')"

definition demo_env :: env where
  "demo_env = \<lparr>env_JWT_SECRET = Some ''s3cret'', env_COOKIE_NAME = None\<rparr>"

definition demo_request :: "json option \<Rightarrow> unit request" where
  "demo_request c =
     \<lparr>cookies = Some (\<lambda>n. if n = COOKIE_NAME then c else None), query = Map.empty,
      params = Map.empty, body = (), bodyString = (\<lambda>n. None), user = None\<rparr>"

definition demo_model :: user_model where
  "demo_model = \<lparr>hash_password = (\<lambda>pw. ''#'' @ pw),
                  comparePassword = (\<lambda>u pw. pw = Some (drop 1 (password u)))\<rparr>"

definition empty_store :: mongo where
  "empty_store = \<lparr>potions = [], users = [], issued = []\<rparr>"

definition demo_form :: "string \<Rightarrow> string \<Rightarrow> (string \<rightharpoonup> string) request" where
  "demo_form n pw =
     \<lparr>cookies = None, query = Map.empty, params = Map.empty,
      body = [''name'' \<mapsto> n, ''password'' \<mapsto> pw],
      bodyString = (\<lambda>k. [''name'' \<mapsto> n, ''password'' \<mapsto> pw] k), user = None\<rparr>"


definition demo_sign :: "claims \<Rightarrow> string \<Rightarrow> string \<Rightarrow> string" where
  "demo_sign c k ttl = replicate (claims_id c) (CHR ''x'') @ ''.'' @ claims_name c"

definition demo_decode :: "string \<Rightarrow> claims option" where
  "demo_decode t =
     Some \<lparr>claims_id = length (takeWhile (\<lambda>c. c = CHR ''x'') t),
           claims_name = tl (dropWhile (\<lambda>c. c = CHR ''x'') t)\<rparr>"

definition alice :: user where
  "alice = \<lparr>uid = 1, uname = ''alice'', password = ''#secret1''\<rparr>"

definition alice_store :: mongo where
  "alice_store = \<lparr>potions = [], users = [alice], issued = [UserSave ''alice'']\<rparr>"

definition demo_parse :: "string \<Rightarrow> jsnum" where
  "demo_parse x = (if x = ''10'' then Fin 10 else if x = ''20'' then Fin 20 else NaN)"

definition demo_potion :: "nat \<Rightarrow> rat \<Rightarrow> rat \<Rightarrow> string list \<Rightarrow> potion" where
  "demo_potion i pr sc cs =
     \<lparr>potion_id = i, name = ''potion'', price = pr, score = sc, ingredients = [],
      strength = 1, flavor = 1, tryDate = ''2024-01-01'', categories = cs, vendor_id = ''v1''\<rparr>"

definition price_store :: mongo where
  "price_store =
     \<lparr>potions = [demo_potion 1 5 1 [], demo_potion 2 10 1 [], demo_potion 3 15 1 [],
                 demo_potion 4 20 1 [], demo_potion 5 (41 / 2) 1 []],
      users = [], issued = []\<rparr>"

definition demo_query :: "(string \<times> string) list \<Rightarrow> unit request" where
  "demo_query q =
     \<lparr>cookies = None, query = map_of q, params = Map.empty, body = (),
      bodyString = (\<lambda>k. None), user = None\<rparr>"

definition category_store :: mongo where
  "category_store =
     \<lparr>potions = [demo_potion 1 10 4 [''healing'', ''rare''],
                 demo_potion 2 12 8 [''healing'', ''cheap'']],
      users = [], issued = []\<rparr>"

definition demo_engine :: group_engine where
  "demo_engine k out acc operand ps = Inr (JArr [])"

definition demo_new_potion :: "potion request" where
  "demo_new_potion =
     \<lparr>cookies = Some [COOKIE_NAME \<mapsto> JStr ''good''], query = Map.empty, params = Map.empty,
      body = demo_potion 0 10 4 [''healing''], bodyString = (\<lambda>k. None), user = None\<rparr>"



section \<open>The auth middleware gates potion creation\<close>

lemma messages_distinct:
  "msg_token_missing \<noteq> msg_session_expired" "msg_token_missing \<noteq> msg_token_invalid"
  "msg_session_expired \<noteq> msg_token_invalid"
  by (simp_all add: msg_token_missing_def msg_session_expired_def msg_token_invalid_def)

lemma trim_Nil: "trim [] = []"
  by (simp add: trim_def)

lemma mw_missing:
  assumes "cookie_of req COOKIE_NAME = None \<or> cookie_of req COOKIE_NAME = Some (JStr [])
           \<or> (\<nexists>s. cookie_of req COOKIE_NAME = Some (JStr s))"
  shows "authMiddleware v e req = Responded (status_json 401 (Error msg_token_missing))"
proof -
  have "\<not> truthy (cookie_of req COOKIE_NAME) \<or> typeof (cookie_of req COOKIE_NAME) \<noteq> ''string''"
  proof (cases "cookie_of req COOKIE_NAME")
    case None
    then show ?thesis by simp
  next
    case (Some j)
    with assms show ?thesis by (cases j) auto
  qed
  then show ?thesis by (auto simp: authMiddleware_def Let_def)
qed

lemma mw_verified:
  assumes "cookie_of req COOKIE_NAME = Some (JStr t)" "trim t \<noteq> []"
  shows "authMiddleware v e req =
     (case v t (env_JWT_SECRET e) of
        Returns c \<Rightarrow> Next (req\<lparr>user := Some c\<rparr>)
      | Throws n \<Rightarrow>
          if n = ''TokenExpiredError'' then Responded (status_json 401 (Error msg_session_expired))
          else if n = ''JsonWebTokenError'' then Responded (status_json 401 (Error msg_token_invalid))
          else Responded (status_json 500 (Error msg_auth_error)))"
proof -
  from assms(2) have "t \<noteq> []" using trim_Nil by auto
  with assms show ?thesis by (simp add: authMiddleware_def Let_def)
qed

lemma mw_next_only_verified:
  assumes "authMiddleware v e req = Next r"
  shows "\<exists>t c. cookie_of req COOKIE_NAME = Some (JStr t) \<and> trim t \<noteq> []
           \<and> v t (env_JWT_SECRET e) = Returns c \<and> r = req\<lparr>user := Some c\<rparr>"
proof (cases "cookie_of req COOKIE_NAME")
  case None
  with assms show ?thesis by (simp add: authMiddleware_def Let_def)
next
  case (Some j)
  with assms show ?thesis
    by (cases j) (auto simp: authMiddleware_def Let_def split: if_splits attempt.splits)
qed

lemma mw_total:
  "authMiddleware v e req \<in>
      {Responded (status_json 401 (Error msg_token_missing)),
       Responded (status_json 401 (Error msg_session_expired)),
       Responded (status_json 401 (Error msg_token_invalid)),
       Responded (status_json 500 (Error msg_auth_error))}
   \<or> (\<exists>c. authMiddleware v e req = Next (req\<lparr>user := Some c\<rparr>))"
  by (auto simp: authMiddleware_def Let_def split: attempt.splits)


text \<open>
  C1. Whatever the request, the auth middleware ends in exactly one of these ways. A cookie
  \<^verbatim>\<open>demo_node+mongo_token\<close> that is absent, empty or not a string is answered 401 with
  the missing-or-invalid-token message. Otherwise the token is verified: an error named
  \<^verbatim>\<open>TokenExpiredError\<close> is answered 401 with the session-expired message, one named
  \<^verbatim>\<open>JsonWebTokenError\<close> 401 with the invalid-token message, any other error 500. Only when
  verification returns claims does the middleware call \<^verbatim>\<open>next()\<close>, with these claims
  as \<^verbatim>\<open>req.user\<close>. The expiry message differs from the invalid-token message.
\<close>

theorem authMiddleware_outcomes:
  "(cookie_of req COOKIE_NAME = None \<or> cookie_of req COOKIE_NAME = Some (JStr [])
      \<or> (\<nexists>s. cookie_of req COOKIE_NAME = Some (JStr s))
     \<longrightarrow> authMiddleware v e req = Responded (status_json 401 (Error msg_token_missing)))
   \<and> (cookie_of req COOKIE_NAME = Some (JStr t) \<and> trim t \<noteq> []
        \<and> v t (env_JWT_SECRET e) = Throws ''TokenExpiredError''
     \<longrightarrow> authMiddleware v e req = Responded (status_json 401 (Error msg_session_expired)))
   \<and> (cookie_of req COOKIE_NAME = Some (JStr t) \<and> trim t \<noteq> []
        \<and> v t (env_JWT_SECRET e) = Throws ''JsonWebTokenError''
     \<longrightarrow> authMiddleware v e req = Responded (status_json 401 (Error msg_token_invalid)))
   \<and> (cookie_of req COOKIE_NAME = Some (JStr t) \<and> trim t \<noteq> []
        \<and> v t (env_JWT_SECRET e) = Throws n \<and> n \<noteq> ''TokenExpiredError''
        \<and> n \<noteq> ''JsonWebTokenError''
     \<longrightarrow> authMiddleware v e req = Responded (status_json 500 (Error msg_auth_error)))
   \<and> (cookie_of req COOKIE_NAME = Some (JStr t) \<and> trim t \<noteq> []
        \<and> v t (env_JWT_SECRET e) = Returns c
     \<longrightarrow> authMiddleware v e req = Next (req\<lparr>user := Some c\<rparr>))
   \<and> (authMiddleware v e req = Next r
     \<longrightarrow> (\<exists>t c. cookie_of req COOKIE_NAME = Some (JStr t) \<and> trim t \<noteq> []
            \<and> v t (env_JWT_SECRET e) = Returns c \<and> r = req\<lparr>user := Some c\<rparr>))
   \<and> (authMiddleware v e req \<in>
         {Responded (status_json 401 (Error msg_token_missing)),
          Responded (status_json 401 (Error msg_session_expired)),
          Responded (status_json 401 (Error msg_token_invalid)),
          Responded (status_json 500 (Error msg_auth_error))}
       \<or> (\<exists>c. authMiddleware v e req = Next (req\<lparr>user := Some c\<rparr>)))
   \<and> msg_session_expired \<noteq> msg_token_invalid"
proof -
  have missing: "cookie_of req COOKIE_NAME = None \<or> cookie_of req COOKIE_NAME = Some (JStr [])
      \<or> (\<nexists>s. cookie_of req COOKIE_NAME = Some (JStr s))
     \<longrightarrow> authMiddleware v e req = Responded (status_json 401 (Error msg_token_missing))"
    using mw_missing by blast
  have expired: "cookie_of req COOKIE_NAME = Some (JStr t) \<and> trim t \<noteq> []
        \<and> v t (env_JWT_SECRET e) = Throws ''TokenExpiredError''
     \<longrightarrow> authMiddleware v e req = Responded (status_json 401 (Error msg_session_expired))"
    by (simp add: mw_verified)
  have invalid: "cookie_of req COOKIE_NAME = Some (JStr t) \<and> trim t \<noteq> []
        \<and> v t (env_JWT_SECRET e) = Throws ''JsonWebTokenError''
     \<longrightarrow> authMiddleware v e req = Responded (status_json 401 (Error msg_token_invalid))"
    by (simp add: mw_verified)
  have other: "cookie_of req COOKIE_NAME = Some (JStr t) \<and> trim t \<noteq> []
        \<and> v t (env_JWT_SECRET e) = Throws n \<and> n \<noteq> ''TokenExpiredError''
        \<and> n \<noteq> ''JsonWebTokenError''
     \<longrightarrow> authMiddleware v e req = Responded (status_json 500 (Error msg_auth_error))"
    by (simp add: mw_verified)
  have ok: "cookie_of req COOKIE_NAME = Some (JStr t) \<and> trim t \<noteq> []
        \<and> v t (env_JWT_SECRET e) = Returns c
     \<longrightarrow> authMiddleware v e req = Next (req\<lparr>user := Some c\<rparr>)"
    by (simp add: mw_verified)
  have only: "authMiddleware v e req = Next r
     \<longrightarrow> (\<exists>t c. cookie_of req COOKIE_NAME = Some (JStr t) \<and> trim t \<noteq> []
            \<and> v t (env_JWT_SECRET e) = Returns c \<and> r = req\<lparr>user := Some c\<rparr>)"
    using mw_next_only_verified by blast
  from missing expired invalid other ok only mw_total [of v e req] messages_distinct(3)
  show ?thesis by (intro conjI)
qed

lemma demo_cookie: "cookie_of (demo_request c) COOKIE_NAME = c"
  by (simp add: cookie_of_def demo_request_def)

lemma trim_demo: "trim ''good'' \<noteq> []" "trim ''old'' \<noteq> []" "trim ''forged'' \<noteq> []" "trim ''early'' \<noteq> []"
  by (simp_all add: trim_def is_space_def)

theorem authMiddleware_outcomes_witness:
  "authMiddleware demo_verify demo_env (demo_request None)
     = Responded (status_json 401 (Error msg_token_missing))
   \<and> authMiddleware demo_verify demo_env (demo_request (Some (JNum 5)))
     = Responded (status_json 401 (Error msg_token_missing))
   \<and> authMiddleware demo_verify demo_env (demo_request (Some (JStr ''old'')))
     = Responded (status_json 401 (Error msg_session_expired))
   \<and> authMiddleware demo_verify demo_env (demo_request (Some (JStr ''forged'')))
     = Responded (status_json 401 (Error msg_token_invalid))
   \<and> authMiddleware demo_verify demo_env (demo_request (Some (JStr ''early'')))
     = Responded (status_json 500 (Error msg_auth_error))
   \<and> authMiddleware demo_verify demo_env (demo_request (Some (JStr ''good'')))
     = Next ((demo_request (Some (JStr ''good'')))\<lparr>user := Some \<lparr>claims_id = 7, claims_name = ''alice''\<rparr>\<rparr>)
   \<and> (\<exists>t c. cookie_of (demo_request (Some (JStr ''good''))) COOKIE_NAME = Some (JStr t)
          \<and> trim t \<noteq> [] \<and> demo_verify t (env_JWT_SECRET demo_env) = Returns c)"
proof -
  note T = authMiddleware_outcomes [where v = demo_verify and e = demo_env]
  have a: "authMiddleware demo_verify demo_env (demo_request None)
     = Responded (status_json 401 (Error msg_token_missing))"
    using T [where req = "demo_request None", THEN conjunct1]
    by (simp add: demo_cookie)
  have b: "authMiddleware demo_verify demo_env (demo_request (Some (JNum 5)))
     = Responded (status_json 401 (Error msg_token_missing))"
    using T [where req = "demo_request (Some (JNum 5))", THEN conjunct1]
    by (simp add: demo_cookie)
  have c: "authMiddleware demo_verify demo_env (demo_request (Some (JStr ''old'')))
     = Responded (status_json 401 (Error msg_session_expired))"
    using T [where req = "demo_request (Some (JStr ''old''))" and t = "''old''",
        THEN conjunct2, THEN conjunct1]
    by (simp add: demo_cookie trim_demo demo_verify_def)
  have d: "authMiddleware demo_verify demo_env (demo_request (Some (JStr ''forged'')))
     = Responded (status_json 401 (Error msg_token_invalid))"
    using T [where req = "demo_request (Some (JStr ''forged''))" and t = "''forged''",
        THEN conjunct2, THEN conjunct2, THEN conjunct1]
    by (simp add: demo_cookie trim_demo demo_verify_def)
  have e: "authMiddleware demo_verify demo_env (demo_request (Some (JStr ''early'')))
     = Responded (status_json 500 (Error msg_auth_error))"
    using T [where req = "demo_request (Some (JStr ''early''))" and t = "''early''"
        and n = "''NotBeforeError''",
        THEN conjunct2, THEN conjunct2, THEN conjunct2, THEN conjunct1]
    by (simp add: demo_cookie trim_demo demo_verify_def)
  have f: "authMiddleware demo_verify demo_env (demo_request (Some (JStr ''good'')))
     = Next ((demo_request (Some (JStr ''good'')))\<lparr>user := Some \<lparr>claims_id = 7, claims_name = ''alice''\<rparr>\<rparr>)"
    using T [where req = "demo_request (Some (JStr ''good''))" and t = "''good''"
        and c = "\<lparr>claims_id = 7, claims_name = ''alice''\<rparr>",
        THEN conjunct2, THEN conjunct2, THEN conjunct2, THEN conjunct2, THEN conjunct1]
    by (simp add: demo_cookie trim_demo demo_verify_def)
  have g: "\<exists>t c. cookie_of (demo_request (Some (JStr ''good''))) COOKIE_NAME = Some (JStr t)
          \<and> trim t \<noteq> [] \<and> demo_verify t (env_JWT_SECRET demo_env) = Returns c"
    using T [where req = "demo_request (Some (JStr ''good''))"
        and r = "(demo_request (Some (JStr ''good'')))\<lparr>user := Some \<lparr>claims_id = 7, claims_name = ''alice''\<rparr>\<rparr>",
        THEN conjunct2, THEN conjunct2, THEN conjunct2, THEN conjunct2, THEN conjunct2,
        THEN conjunct1, THEN mp, OF f]
    by blast
  from a b c d e f g show ?thesis by (intro conjI)
qed


section \<open>Registration\<close>

lemma field_messages_distinct:
  "msg_name_required \<noteq> msg_name_length" "msg_password_required \<noteq> msg_password_length"
  by (simp_all add: msg_name_required_def msg_name_length_def msg_password_required_def
      msg_password_length_def)

lemma name_chain_errors:
  "snd (name_chain v) =
     (if fst (name_chain v) = [] then [\<lparr>field = ''name'', msg = msg_name_required\<rparr>] else [])
     @ (if length (fst (name_chain v)) < 3 \<or> 30 < length (fst (name_chain v))
        then [\<lparr>field = ''name'', msg = msg_name_length\<rparr>] else [])"
  by (auto simp: name_chain_def Let_def)

lemma password_chain_errors:
  "snd (password_chain v) =
     (if fst (password_chain v) = [] then [\<lparr>field = ''password'', msg = msg_password_required\<rparr>] else [])
     @ (if length (fst (password_chain v)) < 6
        then [\<lparr>field = ''password'', msg = msg_password_length\<rparr>] else [])"
  by (auto simp: password_chain_def Let_def)

lemma register_rejects:
  assumes "snd (name_chain (body req ''name'')) @ snd (password_chain (body req ''password'')) \<noteq> []"
  shows "register um fault oid req s =
    (status_json 400 (Errors (snd (name_chain (body req ''name''))
        @ snd (password_chain (body req ''password'')))), s)"
  using assms by (simp add: register_def Let_def split_beta)


text \<open>
  C2. With \<open>n\<close> the name after trimming and escaping and \<open>p\<close> the password after trimming:
  when \<open>n\<close> is shorter than 3 or longer than 30 characters, or \<open>p\<close> shorter than 6,
  \<^verbatim>\<open>POST /auth/register\<close> answers 400, the body lists the error of every rule that is
  violated (and of no rule that holds), and the store is as before: nothing is saved and no
  call is made to it.
\<close>

theorem register_reports_all_violations:
  assumes "n = escape (trim (toString (body req ''name'')))"
    and "p = trim (toString (body req ''password''))"
    and "length n < 3 \<or> 30 < length n \<or> length p < 6"
  shows "\<exists>errs. register um fault oid req s = (status_json 400 (Errors errs), s)
     \<and> (\<lparr>field = ''name'', msg = msg_name_required\<rparr> \<in> set errs \<longleftrightarrow> n = [])
     \<and> (\<lparr>field = ''name'', msg = msg_name_length\<rparr> \<in> set errs \<longleftrightarrow> length n < 3 \<or> 30 < length n)
     \<and> (\<lparr>field = ''password'', msg = msg_password_required\<rparr> \<in> set errs \<longleftrightarrow> p = [])
     \<and> (\<lparr>field = ''password'', msg = msg_password_length\<rparr> \<in> set errs \<longleftrightarrow> length p < 6)"
proof -
  let ?ne = "snd (name_chain (body req ''name''))"
  let ?pe = "snd (password_chain (body req ''password''))"
  have fn: "fst (name_chain (body req ''name'')) = n"
    using assms(1) by (simp add: name_chain_def Let_def)
  have fp: "fst (password_chain (body req ''password'')) = p"
    using assms(2) by (simp add: password_chain_def Let_def)
  have ne: "?ne = (if n = [] then [\<lparr>field = ''name'', msg = msg_name_required\<rparr>] else [])
     @ (if length n < 3 \<or> 30 < length n then [\<lparr>field = ''name'', msg = msg_name_length\<rparr>] else [])"
    using name_chain_errors [of "body req ''name''"] by (simp only: fn)
  have pe: "?pe = (if p = [] then [\<lparr>field = ''password'', msg = msg_password_required\<rparr>] else [])
     @ (if length p < 6 then [\<lparr>field = ''password'', msg = msg_password_length\<rparr>] else [])"
    using password_chain_errors [of "body req ''password''"] by (simp only: fp)
  from assms(3) have "?ne @ ?pe \<noteq> []"
    by (auto simp: ne pe)
  then have r: "register um fault oid req s = (status_json 400 (Errors (?ne @ ?pe)), s)"
    by (rule register_rejects)
  have 1: "\<lparr>field = ''name'', msg = msg_name_required\<rparr> \<in> set (?ne @ ?pe) \<longleftrightarrow> n = []"
    by (auto simp: ne pe field_messages_distinct)
  have 2: "\<lparr>field = ''name'', msg = msg_name_length\<rparr> \<in> set (?ne @ ?pe)
      \<longleftrightarrow> length n < 3 \<or> 30 < length n"
    using field_messages_distinct(1) by (auto simp: ne pe)
  have 3: "\<lparr>field = ''password'', msg = msg_password_required\<rparr> \<in> set (?ne @ ?pe) \<longleftrightarrow> p = []"
    by (auto simp: ne pe field_messages_distinct)
  have 4: "\<lparr>field = ''password'', msg = msg_password_length\<rparr> \<in> set (?ne @ ?pe)
      \<longleftrightarrow> length p < 6"
    using field_messages_distinct(2) by (auto simp: ne pe)
  from r 1 2 3 4 show ?thesis by blast
qed

lemma trim_ab: "trim ''ab'' = ''ab''" "trim '' 123 '' = ''123''"
  by (simp_all add: trim_def is_space_def)

lemma escape_ab: "escape ''ab'' = ''ab''"
  by (simp add: escape_def escape_char_def)

theorem register_reports_all_violations_witness:
  "\<exists>errs. register demo_model None 1 (demo_form ''ab'' '' 123 '') empty_store
       = (status_json 400 (Errors errs), empty_store)
     \<and> \<lparr>field = ''name'', msg = msg_name_required\<rparr> \<notin> set errs
     \<and> \<lparr>field = ''name'', msg = msg_name_length\<rparr> \<in> set errs
     \<and> \<lparr>field = ''password'', msg = msg_password_required\<rparr> \<notin> set errs
     \<and> \<lparr>field = ''password'', msg = msg_password_length\<rparr> \<in> set errs"
  using register_reports_all_violations [of "''ab''" "demo_form ''ab'' '' 123 ''" "''123''"
      demo_model None 1 empty_store]
  by (simp add: demo_form_def toString_def trim_ab escape_ab)


lemma chains_valid:
  assumes "n = escape (trim (toString (body req ''name'')))" "3 \<le> length n" "length n \<le> 30"
    and "p = trim (toString (body req ''password''))" "6 \<le> length p"
  shows "name_chain (body req ''name'') = (n, [])" "password_chain (body req ''password'') = (p, [])"
  using assms by (auto simp: name_chain_def password_chain_def Let_def)

lemma register_saves:
  assumes "name_chain (body req ''name'') = (n, [])"
    and "password_chain (body req ''password'') = (p, [])"
  shows "register um fault oid req s =
     (case User_save um fault oid n p s of
        (Inr u, s') \<Rightarrow> (status_json 201 (Message msg_user_created), s')
      | (Inl err, s') \<Rightarrow>
          if err_code err = Some 11000 then (status_json 500 (Error msg_system_error), s')
          else (status_json 400 (Error (err_message err)), s'))"
  using assms by (simp add: register_def)

lemma User_save_taken:
  assumes "n \<in> set (map uname (users s))"
  shows "User_save um None oid n p s = (Inl DuplicateKey, log_call (UserSave n) s)"
proof -
  from assms have "list_ex (\<lambda>u. uname u = n) (users s)"
    by (auto simp: list_ex_iff)
  then show ?thesis by (simp add: User_save_def)
qed

lemma User_save_fails_unchanged:
  assumes "User_save um fault oid n p s = (Inl err, s')"
  shows "s' = log_call (UserSave n) s"
  using assms by (auto simp: User_save_def split: option.splits if_splits)

lemma User_save_fresh:
  assumes "n \<notin> set (map uname (users s))"
  shows "User_save um None oid n p s =
     (Inr \<lparr>uid = oid, uname = n, password = hash_password um p\<rparr>,
      log_call (UserSave n)
        (s\<lparr>users := users s @ [\<lparr>uid = oid, uname = n, password = hash_password um p\<rparr>]\<rparr>))"
proof -
  from assms have "\<not> list_ex (\<lambda>u. uname u = n) (users s)"
    by (auto simp: list_ex_iff)
  then show ?thesis by (simp add: User_save_def)
qed

lemma count_unique:
  assumes "distinct (map uname us)" "n \<in> set (map uname us)"
  shows "length (filter (\<lambda>u. uname u = n) us) = 1"
  using assms
proof (induction us)
  case Nil
  then show ?case by simp
next
  case (Cons a us)
  show ?case
  proof (cases "uname a = n")
    case True
    from Cons.prems(1) have "uname a \<notin> uname ` set us" by simp
    with True have "\<forall>u \<in> set us. uname u \<noteq> n" by blast
    then have "filter (\<lambda>u. uname u = n) us = []" by (simp add: filter_empty_conv)
    with True show ?thesis by simp
  next
    case False
    with Cons show ?thesis by auto
  qed
qed

text \<open>The first registration of a name succeeds, and names stay unique.\<close>

lemma register_fresh_name:
  assumes "name_chain (body req ''name'') = (n, [])"
    and "password_chain (body req ''password'') = (p, [])"
    and "n \<notin> set (map uname (users s))"
  shows "register um None oid req s =
     (status_json 201 (Message msg_user_created),
      log_call (UserSave n)
        (s\<lparr>users := users s @ [\<lparr>uid = oid, uname = n, password = hash_password um p\<rparr>]\<rparr>))"
  using assms by (simp add: register_saves User_save_fresh)

lemma User_save_keeps_names_distinct:
  assumes "distinct (map uname (users s))"
  shows "distinct (map uname (users (snd (User_save um fault oid n p s))))"
  using assms by (auto simp: User_save_def log_call_def list_ex_iff split: option.splits)

lemma register_keeps_names_distinct:
  assumes "distinct (map uname (users s))"
  shows "distinct (map uname (users (snd (register um fault oid req s))))"
proof (cases "snd (name_chain (body req ''name'')) @ snd (password_chain (body req ''password'')) = []")
  case True
  then have "name_chain (body req ''name'') = (fst (name_chain (body req ''name'')), [])"
    and "password_chain (body req ''password'') = (fst (password_chain (body req ''password'')), [])"
    by (simp_all add: prod_eq_iff)
  then have "snd (register um fault oid req s)
      = snd (User_save um fault oid (fst (name_chain (body req ''name'')))
               (fst (password_chain (body req ''password''))) s)"
    by (auto simp: register_saves split: prod.splits sum.splits)
  then show ?thesis using assms by (simp add: User_save_keeps_names_distinct)
next
  case False
  then show ?thesis using assms by (simp add: register_def split_beta Let_def)
qed

text \<open>
  C3. A registration whose (sanitized, valid) name is already that of a stored user is
  answered 500 with the generic message \<^verbatim>\<open>Erreur systeme\<close>, which names no field.
  Whatever the store does on that call, the answer is not a 2xx, both collections are as
  before, and the store (in which names are unique) still holds exactly one user of that
  name.
\<close>

theorem register_duplicate_name:
  assumes "n = escape (trim (toString (body req ''name'')))" "3 \<le> length n" "length n \<le> 30"
    and "p = trim (toString (body req ''password''))" "6 \<le> length p"
    and "distinct (map uname (users s))"
    and "n \<in> set (map uname (users s))"
  shows "register um None oid req s
           = (status_json 500 (Error msg_system_error), log_call (UserSave n) s)
     \<and> \<not> (200 \<le> status (fst (register um fault oid req s))
           \<and> status (fst (register um fault oid req s)) < 300)
     \<and> users (snd (register um fault oid req s)) = users s
     \<and> potions (snd (register um fault oid req s)) = potions s
     \<and> length (filter (\<lambda>u. uname u = n) (users (snd (register um fault oid req s)))) = 1"
proof -
  note valid = chains_valid [OF assms(1-5)]
  have reg: "register um fault oid req s =
     (case User_save um fault oid n p s of
        (Inr u, s') \<Rightarrow> (status_json 201 (Message msg_user_created), s')
      | (Inl err, s') \<Rightarrow>
          if err_code err = Some 11000 then (status_json 500 (Error msg_system_error), s')
          else (status_json 400 (Error (err_message err)), s'))" for fault
    using valid by (rule register_saves)
  have generic: "register um None oid req s
           = (status_json 500 (Error msg_system_error), log_call (UserSave n) s)"
    by (simp add: reg User_save_taken [OF assms(7)])
  have fails: "\<exists>err. User_save um fault oid n p s = (Inl err, log_call (UserSave n) s)"
  proof (cases fault)
    case None
    then show ?thesis using User_save_taken [OF assms(7)] by blast
  next
    case (Some err)
    then show ?thesis by (simp add: User_save_def)
  qed
  then obtain err where err: "User_save um fault oid n p s = (Inl err, log_call (UserSave n) s)"
    by blast
  have st: "\<not> (200 \<le> status (fst (register um fault oid req s))
           \<and> status (fst (register um fault oid req s)) < 300)"
    by (simp add: reg err status_json_def)
  have same: "snd (register um fault oid req s) = log_call (UserSave n) s"
    by (simp add: reg err)
  have u: "users (snd (register um fault oid req s)) = users s"
    and po: "potions (snd (register um fault oid req s)) = potions s"
    by (simp_all add: same log_call_def)
  have one: "length (filter (\<lambda>u. uname u = n) (users (snd (register um fault oid req s)))) = 1"
    unfolding u using assms(6,7) by (rule count_unique)
  from generic st u po one show ?thesis by (intro conjI)
qed

lemma trim_alice: "trim ''  alice '' = ''alice''" "trim ''hunter22'' = ''hunter22''"
  by (simp_all add: trim_def is_space_def)

lemma escape_alice: "escape ''alice'' = ''alice''"
  by (simp add: escape_def escape_char_def)

theorem register_duplicate_name_witness:
  "register demo_model None 2 (demo_form ''  alice '' ''hunter22'') alice_store
     = (status_json 500 (Error msg_system_error), log_call (UserSave ''alice'') alice_store)
   \<and> users (snd (register demo_model (Some (StoreFailure ''down'')) 2
                    (demo_form ''  alice '' ''hunter22'') alice_store)) = [alice]
   \<and> length (filter (\<lambda>u. uname u = ''alice'')
        (users (snd (register demo_model None 2 (demo_form ''  alice '' ''hunter22'') alice_store)))) = 1"
proof -
  have "register demo_model None 2 (demo_form ''  alice '' ''hunter22'') alice_store
           = (status_json 500 (Error msg_system_error), log_call (UserSave ''alice'') alice_store)
     \<and> \<not> (200 \<le> status (fst (register demo_model fault 2 (demo_form ''  alice '' ''hunter22'') alice_store))
           \<and> status (fst (register demo_model fault 2 (demo_form ''  alice '' ''hunter22'') alice_store)) < 300)
     \<and> users (snd (register demo_model fault 2 (demo_form ''  alice '' ''hunter22'') alice_store)) = users alice_store
     \<and> potions (snd (register demo_model fault 2 (demo_form ''  alice '' ''hunter22'') alice_store)) = potions alice_store
     \<and> length (filter (\<lambda>u. uname u = ''alice'') (users (snd (register demo_model fault 2 (demo_form ''  alice '' ''hunter22'') alice_store)))) = 1"
    for fault
    by (rule register_duplicate_name [where p = "''hunter22''"])
      (simp_all add: demo_form_def toString_def trim_alice escape_alice alice_store_def alice_def)
  note inst = this
  have us: "users alice_store = [alice]"
    by (simp add: alice_store_def)
  have 1: "register demo_model None 2 (demo_form ''  alice '' ''hunter22'') alice_store
     = (status_json 500 (Error msg_system_error), log_call (UserSave ''alice'') alice_store)"
    using inst [of None] by (rule conjunct1)
  have 2: "users (snd (register demo_model (Some (StoreFailure ''down'')) 2
                    (demo_form ''  alice '' ''hunter22'') alice_store)) = [alice]"
    using inst [of "Some (StoreFailure ''down'')"] us by metis
  have 3: "length (filter (\<lambda>u. uname u = ''alice'')
        (users (snd (register demo_model None 2 (demo_form ''  alice '' ''hunter22'') alice_store)))) = 1"
    using inst [of None] by blast
  from 1 2 3 show ?thesis by (intro conjI)
qed


section \<open>Login\<close>

lemma find_by_unique_name:
  assumes "distinct (map uname us)" "u \<in> set us"
  shows "find (\<lambda>x. uname x = uname u) us = Some u"
  using assms
proof (induction us)
  case Nil
  then show ?case by simp
next
  case (Cons a us)
  show ?case
  proof (cases "a = u")
    case True
    then show ?thesis by simp
  next
    case False
    with Cons.prems have in_us: "u \<in> set us" by simp
    from Cons.prems(1) have "uname a \<notin> uname ` set us" by simp
    with in_us have "uname a \<noteq> uname u" by blast
    with Cons in_us show ?thesis by simp
  qed
qed

lemma find_unknown_name:
  assumes "n \<notin> Some ` uname ` set us"
  shows "find (\<lambda>x. Some (uname x) = n) us = None"
  using assms by (auto simp: find_None_iff)

lemma login_found:
  assumes "find (\<lambda>x. Some (uname x) = bodyString req ''name'') (users s) = Some u"
  shows "login um jwt_sign e None req s =
     (if \<not> comparePassword um u (bodyString req ''password'')
      then (Inr (status_json 401 (Error msg_invalid_credentials)),
            log_call (UserFindOne (bodyString req ''name'')) s)
      else
        (Inr ((res_json (Message msg_logged_in))
               \<lparr>set_cookie :=
                  Some \<lparr>cookie_name = auth_COOKIE_NAME e,
                        cookie_value = jwt_sign \<lparr>claims_id = uid u, claims_name = uname u\<rparr>
                          (auth_JWT_SECRET e) ''1d'',
                        httpOnly = True, sameSite = ''strict'', secure = False,
                        maxAge = 24 * 60 * 60 * 1000\<rparr>\<rparr>),
         log_call (UserFindOne (bodyString req ''name'')) s))"
  using assms by (simp add: login_def User_findOne_def Let_def)

lemma login_not_found:
  assumes "find (\<lambda>x. Some (uname x) = bodyString req ''name'') (users s) = None"
  shows "login um jwt_sign e None req s =
     (Inr (status_json 401 (Error msg_invalid_credentials)),
      log_call (UserFindOne (bodyString req ''name'')) s)"
  using assms by (simp add: login_def User_findOne_def Let_def)

text \<open>
  C4. While the store answers: for a stored user, a login whose name is the user's and whose
  password \<^verbatim>\<open>comparePassword\<close> accepts is answered 200 with a cookie under the
  configured cookie name, whose value is the token signed from the claims
  \<^verbatim>\<open>{ id, name }\<close> of that user with the expiry \<^verbatim>\<open>1d\<close>; the cookie is HTTP-only,
  same-site strict and lives 86400000 ms (24 hours). For any decoder that inverts the
  signing, the decoded name is the user's name. A password that is refused, or a name no
  stored user has, is answered 401 without a cookie.
\<close>

theorem login_sets_session_cookie:
  "(u \<in> set (users s) \<and> distinct (map uname (users s))
      \<and> bodyString req ''name'' = Some (uname u)
      \<and> comparePassword um u (bodyString req ''password'')
     \<longrightarrow> (\<exists>resp ck. login um jwt_sign e None req s
                        = (Inr resp, log_call (UserFindOne (Some (uname u))) s)
            \<and> status resp = 200 \<and> set_cookie resp = Some ck
            \<and> cookie_name ck = auth_COOKIE_NAME e
            \<and> cookie_value ck
                = jwt_sign \<lparr>claims_id = uid u, claims_name = uname u\<rparr> (auth_JWT_SECRET e) ''1d''
            \<and> httpOnly ck \<and> sameSite ck = ''strict'' \<and> maxAge ck = 86400000
            \<and> ((\<forall>c. jwt_decode (jwt_sign c (auth_JWT_SECRET e) ''1d'') = Some c)
                 \<longrightarrow> map_option claims_name (jwt_decode (cookie_value ck)) = Some (uname u))))
   \<and> (u \<in> set (users s) \<and> distinct (map uname (users s))
      \<and> bodyString req ''name'' = Some (uname u)
      \<and> \<not> comparePassword um u (bodyString req ''password'')
     \<longrightarrow> (\<exists>resp. login um jwt_sign e None req s
                     = (Inr resp, log_call (UserFindOne (Some (uname u))) s)
            \<and> status resp = 401 \<and> set_cookie resp = None))
   \<and> (bodyString req ''name'' \<notin> Some ` uname ` set (users s)
     \<longrightarrow> (\<exists>resp. login um jwt_sign e None req s
                     = (Inr resp, log_call (UserFindOne (bodyString req ''name'')) s)
            \<and> status resp = 401 \<and> set_cookie resp = None))"
proof (intro conjI impI)
  assume a: "u \<in> set (users s) \<and> distinct (map uname (users s))
      \<and> bodyString req ''name'' = Some (uname u)
      \<and> comparePassword um u (bodyString req ''password'')"
  then have f: "find (\<lambda>x. Some (uname x) = bodyString req ''name'') (users s) = Some u"
    by (simp add: find_by_unique_name)
  let ?ck = "\<lparr>cookie_name = auth_COOKIE_NAME e,
              cookie_value = jwt_sign \<lparr>claims_id = uid u, claims_name = uname u\<rparr>
                 (auth_JWT_SECRET e) ''1d'',
              httpOnly = True, sameSite = ''strict'', secure = False,
              maxAge = 24 * 60 * 60 * 1000\<rparr>"
  let ?resp = "(res_json (Message msg_logged_in))\<lparr>set_cookie := Some ?ck\<rparr>"
  have l: "login um jwt_sign e None req s = (Inr ?resp, log_call (UserFindOne (Some (uname u))) s)"
    using a by (simp add: login_found [OF f])
  have st: "status ?resp = 200" by (simp add: res_json_def status_json_def)
  have ck: "set_cookie ?resp = Some ?ck" by simp
  have rt: "(\<forall>c. jwt_decode (jwt_sign c (auth_JWT_SECRET e) ''1d'') = Some c)
       \<longrightarrow> map_option claims_name (jwt_decode (cookie_value ?ck)) = Some (uname u)"
    by simp
  have fl: "cookie_name ?ck = auth_COOKIE_NAME e"
    "cookie_value ?ck = jwt_sign \<lparr>claims_id = uid u, claims_name = uname u\<rparr> (auth_JWT_SECRET e) ''1d''"
    "httpOnly ?ck" "sameSite ?ck = ''strict''" "maxAge ?ck = 86400000"
    by simp_all
  from l st ck rt fl
  show "\<exists>resp ck. login um jwt_sign e None req s
                        = (Inr resp, log_call (UserFindOne (Some (uname u))) s)
            \<and> status resp = 200 \<and> set_cookie resp = Some ck
            \<and> cookie_name ck = auth_COOKIE_NAME e
            \<and> cookie_value ck
                = jwt_sign \<lparr>claims_id = uid u, claims_name = uname u\<rparr> (auth_JWT_SECRET e) ''1d''
            \<and> httpOnly ck \<and> sameSite ck = ''strict'' \<and> maxAge ck = 86400000
            \<and> ((\<forall>c. jwt_decode (jwt_sign c (auth_JWT_SECRET e) ''1d'') = Some c)
                 \<longrightarrow> map_option claims_name (jwt_decode (cookie_value ck)) = Some (uname u))"
    by blast
next
  assume a: "u \<in> set (users s) \<and> distinct (map uname (users s))
      \<and> bodyString req ''name'' = Some (uname u)
      \<and> \<not> comparePassword um u (bodyString req ''password'')"
  then have f: "find (\<lambda>x. Some (uname x) = bodyString req ''name'') (users s) = Some u"
    by (simp add: find_by_unique_name)
  have "login um jwt_sign e None req s
      = (Inr (status_json 401 (Error msg_invalid_credentials)),
         log_call (UserFindOne (Some (uname u))) s)"
    using a by (simp add: login_found [OF f])
  then show "\<exists>resp. login um jwt_sign e None req s
                     = (Inr resp, log_call (UserFindOne (Some (uname u))) s)
            \<and> status resp = 401 \<and> set_cookie resp = None"
    by (simp add: status_json_def)
next
  assume "bodyString req ''name'' \<notin> Some ` uname ` set (users s)"
  then have "find (\<lambda>x. Some (uname x) = bodyString req ''name'') (users s) = None"
    by (rule find_unknown_name)
  then have "login um jwt_sign e None req s
      = (Inr (status_json 401 (Error msg_invalid_credentials)),
         log_call (UserFindOne (bodyString req ''name'')) s)"
    by (rule login_not_found)
  then show "\<exists>resp. login um jwt_sign e None req s
                     = (Inr resp, log_call (UserFindOne (bodyString req ''name'')) s)
            \<and> status resp = 401 \<and> set_cookie resp = None"
    by (simp add: status_json_def)
qed


lemma takeWhile_replicate_stop:
  assumes "P a" "\<not> P b"
  shows "takeWhile P (replicate n a @ b # ys) = replicate n a"
    and "dropWhile P (replicate n a @ b # ys) = b # ys"
  using assms by (induction n) simp_all

lemma demo_roundtrip: "demo_decode (demo_sign c k ttl) = Some c"
  by (simp add: demo_decode_def demo_sign_def takeWhile_replicate_stop)

lemma demo_form_fields:
  "bodyString (demo_form n pw) ''name'' = Some n"
  "bodyString (demo_form n pw) ''password'' = Some pw"
  by (simp_all add: demo_form_def)

theorem login_sets_session_cookie_witness:
  "(\<exists>resp ck. fst (login demo_model demo_sign demo_env None (demo_form ''alice'' ''secret1'') alice_store)
        = Inr resp
      \<and> status resp = 200 \<and> set_cookie resp = Some ck
      \<and> cookie_name ck = ''demo_node+mongo_token'' \<and> cookie_value ck = ''x.alice''
      \<and> httpOnly ck \<and> sameSite ck = ''strict'' \<and> maxAge ck = 86400000
      \<and> map_option claims_name (demo_decode (cookie_value ck)) = Some ''alice'')
   \<and> (\<exists>resp. fst (login demo_model demo_sign demo_env None (demo_form ''alice'' ''guess'') alice_store)
        = Inr resp \<and> status resp = 401 \<and> set_cookie resp = None)
   \<and> (\<exists>resp. fst (login demo_model demo_sign demo_env None (demo_form ''bob'' ''secret1'') alice_store)
        = Inr resp \<and> status resp = 401 \<and> set_cookie resp = None)"
proof -
  note T = login_sets_session_cookie [where s = alice_store and um = demo_model
      and jwt_sign = demo_sign and e = demo_env and jwt_decode = demo_decode and u = alice]
  have facts: "alice \<in> set (users alice_store)" "distinct (map uname (users alice_store))"
    "uname alice = ''alice''" "uid alice = 1"
    "comparePassword demo_model alice (Some ''secret1'')"
    "\<not> comparePassword demo_model alice (Some ''guess'')"
    "Some ''bob'' \<notin> Some ` uname ` set (users alice_store)"
    "auth_COOKIE_NAME demo_env = ''demo_node+mongo_token''"
    by (simp_all add: alice_store_def alice_def demo_model_def auth_COOKIE_NAME_def
        or_default_def demo_env_def)
  have h1: "alice \<in> set (users alice_store) \<and> distinct (map uname (users alice_store))
      \<and> bodyString (demo_form ''alice'' ''secret1'') ''name'' = Some (uname alice)
      \<and> comparePassword demo_model alice (bodyString (demo_form ''alice'' ''secret1'') ''password'')"
    by (simp add: facts demo_form_fields)
  from T [where req = "demo_form ''alice'' ''secret1''", THEN conjunct1, THEN mp, OF h1]
  obtain resp ck where
    r: "login demo_model demo_sign demo_env None (demo_form ''alice'' ''secret1'') alice_store
          = (Inr resp, log_call (UserFindOne (Some (uname alice))) alice_store)"
      "status resp = 200" "set_cookie resp = Some ck"
      "cookie_name ck = auth_COOKIE_NAME demo_env"
      "cookie_value ck = demo_sign \<lparr>claims_id = uid alice, claims_name = uname alice\<rparr>
          (auth_JWT_SECRET demo_env) ''1d''"
      "httpOnly ck" "sameSite ck = ''strict''" "maxAge ck = 86400000"
    and rt: "(\<forall>c. demo_decode (demo_sign c (auth_JWT_SECRET demo_env) ''1d'') = Some c)
        \<longrightarrow> map_option claims_name (demo_decode (cookie_value ck)) = Some (uname alice)"
    by blast
  from rt have dec: "map_option claims_name (demo_decode (cookie_value ck)) = Some ''alice''"
    by (simp add: demo_roundtrip facts)
  have 1: "\<exists>resp ck. fst (login demo_model demo_sign demo_env None (demo_form ''alice'' ''secret1'') alice_store)
        = Inr resp
      \<and> status resp = 200 \<and> set_cookie resp = Some ck
      \<and> cookie_name ck = ''demo_node+mongo_token'' \<and> cookie_value ck = ''x.alice''
      \<and> httpOnly ck \<and> sameSite ck = ''strict'' \<and> maxAge ck = 86400000
      \<and> map_option claims_name (demo_decode (cookie_value ck)) = Some ''alice''"
  proof (intro exI conjI)
    show "fst (login demo_model demo_sign demo_env None (demo_form ''alice'' ''secret1'') alice_store)
        = Inr resp" by (simp add: r(1))
    show "cookie_name ck = ''demo_node+mongo_token''" by (simp add: r(4) facts)
    show "cookie_value ck = ''x.alice''" by (simp add: r(5) facts demo_sign_def)
  qed (rule r dec)+
  have h2: "alice \<in> set (users alice_store) \<and> distinct (map uname (users alice_store))
      \<and> bodyString (demo_form ''alice'' ''guess'') ''name'' = Some (uname alice)
      \<and> \<not> comparePassword demo_model alice (bodyString (demo_form ''alice'' ''guess'') ''password'')"
    by (simp add: facts demo_form_fields)
  from T [where req = "demo_form ''alice'' ''guess''", THEN conjunct2, THEN conjunct1, THEN mp, OF h2]
  obtain resp2 where
    r2: "login demo_model demo_sign demo_env None (demo_form ''alice'' ''guess'') alice_store
          = (Inr resp2, log_call (UserFindOne (Some (uname alice))) alice_store)"
      "status resp2 = 401" "set_cookie resp2 = None"
    by blast
  have 2: "\<exists>resp. fst (login demo_model demo_sign demo_env None (demo_form ''alice'' ''guess'') alice_store)
        = Inr resp \<and> status resp = 401 \<and> set_cookie resp = None"
  proof (intro exI conjI)
    show "fst (login demo_model demo_sign demo_env None (demo_form ''alice'' ''guess'') alice_store)
        = Inr resp2" by (simp add: r2(1))
  qed (rule r2)+
  have h3: "bodyString (demo_form ''bob'' ''secret1'') ''name'' \<notin> Some ` uname ` set (users alice_store)"
    by (simp add: facts demo_form_fields)
  from T [where req = "demo_form ''bob'' ''secret1''", THEN conjunct2, THEN conjunct2, THEN mp, OF h3]
  obtain resp3 where
    r3: "login demo_model demo_sign demo_env None (demo_form ''bob'' ''secret1'') alice_store
          = (Inr resp3, log_call (UserFindOne (bodyString (demo_form ''bob'' ''secret1'') ''name'')) alice_store)"
      "status resp3 = 401" "set_cookie resp3 = None"
    by blast
  have 3: "\<exists>resp. fst (login demo_model demo_sign demo_env None (demo_form ''bob'' ''secret1'') alice_store)
        = Inr resp \<and> status resp = 401 \<and> set_cookie resp = None"
  proof (intro exI conjI)
    show "fst (login demo_model demo_sign demo_env None (demo_form ''bob'' ''secret1'') alice_store)
        = Inr resp3" by (simp add: r3(1))
  qed (rule r3)+
  from 1 2 3 show ?thesis by (intro conjI)
qed


section \<open>The price range\<close>

lemma matches_price_between:
  "matches (PriceBetween (Fin lo) (Fin hi)) = (\<lambda>p. lo \<le> price p \<and> price p \<le> hi)"
  by (rule ext) simp

lemma Potion_find_price_range:
  "Potion_find None (PriceBetween (Fin lo) (Fin hi)) s =
     (Inr (filter (\<lambda>p. lo \<le> price p \<and> price p \<le> hi) (potions s)),
      log_call (PotionFind (PriceBetween (Fin lo) (Fin hi))) s)"
  by (simp add: Potion_find_def matches_price_between)

text \<open>
  C5. When \<^verbatim>\<open>min\<close> and \<^verbatim>\<open>max\<close> parse to the finite numbers \<open>lo\<close> and \<open>hi\<close> and the
  store answers, \<^verbatim>\<open>GET /potions/price-range\<close> answers 200 with exactly the potions whose
  price is in the closed interval from \<open>lo\<close> to \<open>hi\<close>: a potion priced \<open>lo\<close> or \<open>hi\<close> is
  returned, and none outside the interval is.
\<close>

theorem price_range_is_closed_interval:
  assumes "parseFloat str_to_num (query req ''min'') = Fin lo"
    and "parseFloat str_to_num (query req ''max'') = Fin hi"
  shows "\<exists>ps. get_price_range str_to_num None req s
           = (res_json (Potions ps), log_call (PotionFind (PriceBetween (Fin lo) (Fin hi))) s)
     \<and> status (res_json (Potions ps)) = 200
     \<and> ps = filter (\<lambda>p. lo \<le> price p \<and> price p \<le> hi) (potions s)
     \<and> (\<forall>p. p \<in> set ps \<longleftrightarrow> p \<in> set (potions s) \<and> lo \<le> price p \<and> price p \<le> hi)
     \<and> (\<forall>p. p \<in> set (potions s) \<and> lo \<le> hi \<and> (price p = lo \<or> price p = hi) \<longrightarrow> p \<in> set ps)"
proof -
  let ?ps = "filter (\<lambda>p. lo \<le> price p \<and> price p \<le> hi) (potions s)"
  have run: "get_price_range str_to_num None req s
           = (res_json (Potions ?ps), log_call (PotionFind (PriceBetween (Fin lo) (Fin hi))) s)"
    using assms by (simp add: get_price_range_def Potion_find_price_range)
  have ok: "status (res_json (Potions ?ps)) = 200"
    by (simp add: res_json_def status_json_def)
  have mem: "\<forall>p. p \<in> set ?ps \<longleftrightarrow> p \<in> set (potions s) \<and> lo \<le> price p \<and> price p \<le> hi"
    by simp
  have ends: "\<forall>p. p \<in> set (potions s) \<and> lo \<le> hi \<and> (price p = lo \<or> price p = hi) \<longrightarrow> p \<in> set ?ps"
    by auto
  from run ok mem ends show ?thesis by blast
qed

lemma demo_bounds:
  "parseFloat demo_parse (query (demo_query [(''min'', ''10''), (''max'', ''20'')]) ''min'') = Fin 10"
  "parseFloat demo_parse (query (demo_query [(''min'', ''10''), (''max'', ''20'')]) ''max'') = Fin 20"
  by (simp_all add: parseFloat_def demo_query_def demo_parse_def)

theorem price_range_is_closed_interval_witness:
  "fst (get_price_range demo_parse None (demo_query [(''min'', ''10''), (''max'', ''20'')]) price_store)
     = res_json (Potions [demo_potion 2 10 1 [], demo_potion 3 15 1 [], demo_potion 4 20 1 []])"
proof -
  from price_range_is_closed_interval [OF demo_bounds, of price_store]
  have "fst (get_price_range demo_parse None (demo_query [(''min'', ''10''), (''max'', ''20'')]) price_store)
     = res_json (Potions (filter (\<lambda>p. 10 \<le> price p \<and> price p \<le> 20) (potions price_store)))"
    by auto
  then show ?thesis
    by (simp add: price_store_def demo_potion_def)
qed

lemma Potion_find_nan:
  assumes "lo = NaN \<or> hi = NaN"
  shows "\<exists>m. Potion_find fault (PriceBetween lo hi) s
      = (Inl (CastError m), log_call (PotionFind (PriceBetween lo hi)) s)"
  using assms by (auto simp: Potion_find_def)

lemma price_range_never_400:
  "status (fst (get_price_range str_to_num fault req s)) \<in> {200, 500}"
  by (auto simp: get_price_range_def Potion_find_def Let_def res_json_def status_json_def
      split: option.splits sum.splits)

text \<open>
  C6. When \<^verbatim>\<open>min\<close> or \<^verbatim>\<open>max\<close> is absent, or does not parse to a number, the query
  itself fails and \<^verbatim>\<open>GET /potions/price-range\<close> answers 500 with the error's message,
  not 400.
\<close>

theorem price_range_invalid_bound_is_500:
  assumes "query req ''min'' = None \<or> query req ''max'' = None
      \<or> parseFloat str_to_num (query req ''min'') = NaN
      \<or> parseFloat str_to_num (query req ''max'') = NaN"
  shows "status (fst (get_price_range str_to_num fault req s)) = 500
     \<and> status (fst (get_price_range str_to_num fault req s)) \<noteq> 400
     \<and> (\<exists>m. sent (fst (get_price_range str_to_num fault req s)) = Error m)
     \<and> potions (snd (get_price_range str_to_num fault req s)) = potions s"
proof -
  let ?lo = "parseFloat str_to_num (query req ''min'')"
  let ?hi = "parseFloat str_to_num (query req ''max'')"
  from assms have "?lo = NaN \<or> ?hi = NaN"
    by (auto simp: parseFloat_def)
  then obtain m where "Potion_find fault (PriceBetween ?lo ?hi) s
      = (Inl (CastError m), log_call (PotionFind (PriceBetween ?lo ?hi)) s)"
    using Potion_find_nan by blast
  then have "get_price_range str_to_num fault req s
      = (status_json 500 (Error m), log_call (PotionFind (PriceBetween ?lo ?hi)) s)"
    by (simp add: get_price_range_def)
  then show ?thesis
    by (simp add: status_json_def log_call_def)
qed

theorem price_range_invalid_bound_is_500_witness:
  "status (fst (get_price_range demo_parse None (demo_query [(''max'', ''20'')]) price_store)) = 500
   \<and> status (fst (get_price_range demo_parse None (demo_query [(''min'', ''abc''), (''max'', ''20'')])
        price_store)) = 500"
proof -
  have a: "query (demo_query [(''max'', ''20'')]) ''min'' = None"
    by (simp add: demo_query_def)
  have b: "parseFloat demo_parse (query (demo_query [(''min'', ''abc''), (''max'', ''20'')]) ''min'') = NaN"
    by (simp add: demo_query_def parseFloat_def demo_parse_def)
  from a have 1: "status (fst (get_price_range demo_parse None (demo_query [(''max'', ''20'')]) price_store)) = 500"
    using price_range_invalid_bound_is_500 [of "demo_query [(''max'', ''20'')]" demo_parse None price_store]
    by blast
  from b have 2: "status (fst (get_price_range demo_parse None
        (demo_query [(''min'', ''abc''), (''max'', ''20'')]) price_store)) = 500"
    using price_range_invalid_bound_is_500
      [of "demo_query [(''min'', ''abc''), (''max'', ''20'')]" demo_parse None price_store]
    by blast
  from 1 2 show ?thesis by (intro conjI)
qed



section \<open>Analytics\<close>

lemma keys_group_avg: "map fst (group_avg rows) = remdups (map fst rows)"
  by (simp add: group_avg_def comp_def)

lemma group_avg_member:
  "(k, a) \<in> set (group_avg rows)
     \<longleftrightarrow> k \<in> fst ` set rows \<and> a = avg (map snd (filter (\<lambda>r. fst r = k) rows))"
  by (auto simp: group_avg_def)

lemma keys_unwind_categories:
  "fst ` set (unwind_categories ps) = (\<Union>p \<in> set ps. set (categories p))"
  by (auto simp: unwind_categories_def image_iff)

lemma category_rows_of_one:
  "map snd (filter (\<lambda>r. fst r = c) (map (\<lambda>k. (k, x)) cs)) = replicate (count_list cs c) x"
  by (induction cs) simp_all

lemma category_rows:
  "map snd (filter (\<lambda>r. fst r = c) (unwind_categories ps))
     = concat (map (\<lambda>p. replicate (count_list (categories p) c) (score p)) ps)"
proof (induction ps)
  case Nil
  then show ?case by (simp add: unwind_categories_def)
next
  case (Cons p ps)
  have "unwind_categories (p # ps)
      = map (\<lambda>k. (k, score p)) (categories p) @ unwind_categories ps"
    by (simp add: unwind_categories_def)
  with Cons show ?case by (simp add: category_rows_of_one)
qed

lemma aggregate_by_category:
  "get_average_score_by_category g None req s
     = (res_json (Aggregation (Groups (group_avg (unwind_categories (potions s))))),
        log_call (PotionAggregate AverageScoreByCategory) s)"
  by (simp add: get_average_score_by_category_def Potion_aggregate_def)

lemma two_potions_groups:
  assumes "categories p1 = [shared, c1]" "categories p2 = [shared, c2]"
    and "distinct [shared, c1, c2]"
  shows "group_avg (unwind_categories [p1, p2])
     = [(c1, score p1), (shared, (score p1 + score p2) / 2), (c2, score p2)]"
  using assms by (auto simp: group_avg_def unwind_categories_def avg_def)

text \<open>
  C7. While the store answers, \<^verbatim>\<open>GET /potions/analytics/average-score-by-category\<close>
  answers 200 with one group per category that occurs in the collection, each once. The
  average of a group is taken over the scores of the potions that list the category, a
  potion counted once per listing; so every category of every potion has its group. For two
  potions that share one category and differ in a second, there are three groups: the
  shared one with the mean of the two scores, and one per unshared category with the score
  of its potion. (Averages are exact rationals here.)
\<close>

theorem average_score_by_category_fans_out:
  "\<exists>groups. get_average_score_by_category g None req s
         = (res_json (Aggregation (Groups groups)),
            log_call (PotionAggregate AverageScoreByCategory) s)
     \<and> status (res_json (Aggregation (Groups groups))) = 200
     \<and> distinct (map fst groups)
     \<and> set (map fst groups) = (\<Union>p \<in> set (potions s). set (categories p))
     \<and> (\<forall>c a. (c, a) \<in> set groups \<longrightarrow>
           a = avg (concat (map (\<lambda>p. replicate (count_list (categories p) c) (score p))
                              (potions s))))
     \<and> (\<forall>p \<in> set (potions s). \<forall>c \<in> set (categories p). \<exists>a. (c, a) \<in> set groups)
     \<and> (\<forall>p1 p2 shared c1 c2.
           potions s = [p1, p2] \<and> categories p1 = [shared, c1] \<and> categories p2 = [shared, c2]
           \<and> distinct [shared, c1, c2]
           \<longrightarrow> set groups = {(shared, (score p1 + score p2) / 2), (c1, score p1), (c2, score p2)}
               \<and> length groups = 3)"
proof -
  let ?groups = "group_avg (unwind_categories (potions s))"
  have run: "get_average_score_by_category g None req s
         = (res_json (Aggregation (Groups ?groups)),
            log_call (PotionAggregate AverageScoreByCategory) s)"
    by (rule aggregate_by_category)
  have ok: "status (res_json (Aggregation (Groups ?groups))) = 200"
    by (simp add: res_json_def status_json_def)
  have once: "distinct (map fst ?groups)"
    by (simp add: keys_group_avg)
  have keys: "set (map fst ?groups) = (\<Union>p \<in> set (potions s). set (categories p))"
    using keys_unwind_categories [of "potions s"] by (simp add: keys_group_avg)
  have mean: "\<forall>c a. (c, a) \<in> set ?groups \<longrightarrow>
           a = avg (concat (map (\<lambda>p. replicate (count_list (categories p) c) (score p))
                              (potions s)))"
    by (simp add: group_avg_member category_rows)
  have every: "\<forall>p \<in> set (potions s). \<forall>c \<in> set (categories p). \<exists>a. (c, a) \<in> set ?groups"
  proof (intro ballI)
    fix p c
    assume "p \<in> set (potions s)" "c \<in> set (categories p)"
    then have "c \<in> fst ` set (unwind_categories (potions s))"
      unfolding keys_unwind_categories by blast
    then show "\<exists>a. (c, a) \<in> set ?groups"
      by (simp add: group_avg_member)
  qed
  have two: "\<forall>p1 p2 shared c1 c2.
           potions s = [p1, p2] \<and> categories p1 = [shared, c1] \<and> categories p2 = [shared, c2]
           \<and> distinct [shared, c1, c2]
           \<longrightarrow> set ?groups = {(shared, (score p1 + score p2) / 2), (c1, score p1), (c2, score p2)}
               \<and> length ?groups = 3"
  proof (intro allI impI)
    fix p1 p2 shared c1 c2
    assume a: "potions s = [p1, p2] \<and> categories p1 = [shared, c1] \<and> categories p2 = [shared, c2]
           \<and> distinct [shared, c1, c2]"
    then have "?groups = [(c1, score p1), (shared, (score p1 + score p2) / 2), (c2, score p2)]"
      using two_potions_groups [of p1 shared c1 p2 c2] by simp
    then show "set ?groups = {(shared, (score p1 + score p2) / 2), (c1, score p1), (c2, score p2)}
               \<and> length ?groups = 3"
      by auto
  qed
  from run ok once keys mean every two show ?thesis by blast
qed

theorem average_score_by_category_fans_out_witness:
  "\<exists>groups. fst (get_average_score_by_category demo_engine None (demo_query []) category_store)
        = res_json (Aggregation (Groups groups))
     \<and> set groups = {(''healing'', 6), (''rare'', 4), (''cheap'', 8)} \<and> length groups = 3
     \<and> avg (concat (map (\<lambda>p. replicate (count_list (categories p) ''healing'') (score p))
                         (potions category_store))) = 6"
proof -
  from average_score_by_category_fans_out [of demo_engine "demo_query []" category_store]
  obtain groups where
    all: "get_average_score_by_category demo_engine None (demo_query []) category_store
         = (res_json (Aggregation (Groups groups)),
            log_call (PotionAggregate AverageScoreByCategory) category_store)
     \<and> status (res_json (Aggregation (Groups groups))) = 200
     \<and> distinct (map fst groups)
     \<and> set (map fst groups) = (\<Union>p \<in> set (potions category_store). set (categories p))
     \<and> (\<forall>c a. (c, a) \<in> set groups \<longrightarrow>
           a = avg (concat (map (\<lambda>p. replicate (count_list (categories p) c) (score p))
                              (potions category_store))))
     \<and> (\<forall>p \<in> set (potions category_store). \<forall>c \<in> set (categories p). \<exists>a. (c, a) \<in> set groups)
     \<and> (\<forall>p1 p2 shared c1 c2.
           potions category_store = [p1, p2] \<and> categories p1 = [shared, c1]
           \<and> categories p2 = [shared, c2] \<and> distinct [shared, c1, c2]
           \<longrightarrow> set groups = {(shared, (score p1 + score p2) / 2), (c1, score p1), (c2, score p2)}
               \<and> length groups = 3)" ..
  note run = all [THEN conjunct1]
  note two = all [THEN conjunct2, THEN conjunct2, THEN conjunct2, THEN conjunct2,
      THEN conjunct2, THEN conjunct2]
  let ?p1 = "demo_potion 1 10 4 [''healing'', ''rare'']"
  let ?p2 = "demo_potion 2 12 8 [''healing'', ''cheap'']"
  have h: "potions category_store = [?p1, ?p2]
      \<and> categories ?p1 = [''healing'', ''rare'']
      \<and> categories ?p2 = [''healing'', ''cheap'']
      \<and> distinct [''healing'', ''rare'', ''cheap'']"
    by (simp add: category_store_def demo_potion_def)
  have vals: "score ?p1 = 4" "score ?p2 = 8"
    by (simp_all add: demo_potion_def)
  have mean: "(4 + 8) / 2 = (6 :: rat)"
    by simp
  from two [rule_format, OF h]
  have "set groups = {(''healing'', (score ?p1 + score ?p2) / 2), (''rare'', score ?p1),
          (''cheap'', score ?p2)} \<and> length groups = 3" .
  then have g: "set groups = {(''healing'', 6), (''rare'', 4), (''cheap'', 8)}" "length groups = 3"
    unfolding vals mean by simp_all
  from g(1) have "(''healing'', 6) \<in> set groups"
    by simp
  with all [THEN conjunct2, THEN conjunct2, THEN conjunct2, THEN conjunct2, THEN conjunct1]
  have m: "avg (concat (map (\<lambda>p. replicate (count_list (categories p) ''healing'') (score p))
                         (potions category_store))) = 6"
    by simp
  show ?thesis
  proof (intro exI conjI)
    show "fst (get_average_score_by_category demo_engine None (demo_query []) category_store)
        = res_json (Aggregation (Groups groups))"
      by (simp add: run)
  qed (rule g m)+
qed


text \<open>
  C8. When \<^verbatim>\<open>groupBy\<close>, \<^verbatim>\<open>metric\<close> or \<^verbatim>\<open>field\<close> is missing or empty,
  \<^verbatim>\<open>GET /potions/analytics/search\<close> answers 400 with an error body and the store is
  untouched: no call to it is issued.
\<close>

theorem search_requires_all_parameters:
  assumes "query req ''groupBy'' = None \<or> query req ''groupBy'' = Some []
      \<or> query req ''metric'' = None \<or> query req ''metric'' = Some []
      \<or> query req ''field'' = None \<or> query req ''field'' = Some []"
  shows "get_search g fault req s = (status_json 400 (Error msg_missing_params), s)
     \<and> status (fst (get_search g fault req s)) = 400
     \<and> issued (snd (get_search g fault req s)) = issued s"
proof -
  from assms have "falsy (query req ''groupBy'') \<or> falsy (query req ''metric'')
      \<or> falsy (query req ''field'')"
    by (auto simp: falsy_def)
  then have "get_search g fault req s = (status_json 400 (Error msg_missing_params), s)"
    by (simp add: get_search_def Let_def)
  then show ?thesis by (simp add: status_json_def)
qed

theorem search_requires_all_parameters_witness:
  "get_search demo_engine None (demo_query [(''groupBy'', ''vendor_id''), (''metric'', ''avg'')])
       category_store
     = (status_json 400 (Error msg_missing_params), category_store)
   \<and> get_search demo_engine None
        (demo_query [(''groupBy'', ''''), (''metric'', ''avg''), (''field'', ''score'')]) category_store
     = (status_json 400 (Error msg_missing_params), category_store)"
proof -
  have 1: "get_search demo_engine None (demo_query [(''groupBy'', ''vendor_id''), (''metric'', ''avg'')])
       category_store
     = (status_json 400 (Error msg_missing_params), category_store)"
    using search_requires_all_parameters
      [of "demo_query [(''groupBy'', ''vendor_id''), (''metric'', ''avg'')]" demo_engine None category_store]
    by (simp add: demo_query_def)
  have 2: "get_search demo_engine None
        (demo_query [(''groupBy'', ''''), (''metric'', ''avg''), (''field'', ''score'')]) category_store
     = (status_json 400 (Error msg_missing_params), category_store)"
    using search_requires_all_parameters
      [of "demo_query [(''groupBy'', ''''), (''metric'', ''avg''), (''field'', ''score'')]"
        demo_engine None category_store]
    by (simp add: demo_query_def)
  from 1 2 show ?thesis by (intro conjI)
qed



section \<open>Reads leave the store as it is\<close>

lemma log_call_collections:
  "potions (log_call c s) = potions s" "users (log_call c s) = users s"
  by (simp_all add: log_call_def)

lemma snd_answer:
  "snd (case r of (Inl err, s') \<Rightarrow> (f err, s') | (Inr x, s') \<Rightarrow> (h x, s')) = snd r"
  by (cases r) (auto split: sum.splits)

lemma Potion_find_state: "snd (Potion_find fault f s) = log_call (PotionFind f) s"
  by (simp add: Potion_find_def split: sum.splits option.splits)

lemma Potion_distinct_state:
  "snd (Potion_distinct_categories fault s) = log_call (PotionDistinct ''categories'') s"
  by (simp add: Potion_distinct_categories_def split: option.splits)

lemma Potion_aggregate_state: "snd (Potion_aggregate g fault pl s) = log_call (PotionAggregate pl) s"
  by (simp add: Potion_aggregate_def split: option.splits)

lemma get_potions_state: "snd (get_potions fault req s) = log_call (PotionFind Everything) s"
  by (simp add: get_potions_def snd_answer Potion_find_state)

lemma get_names_state: "snd (get_names fault req s) = log_call (PotionFind Everything) s"
  by (simp add: get_names_def snd_answer Potion_find_state)

lemma get_vendor_state: "\<exists>c. snd (get_vendor fault req s) = log_call c s"
proof -
  let ?f = "VendorIs (case params req ''vendor_id'' of None \<Rightarrow> [] | Some v \<Rightarrow> v)"
  have "snd (get_vendor fault req s) = log_call (PotionFind ?f) s"
    by (simp add: get_vendor_def Let_def snd_answer Potion_find_state)
  then show ?thesis ..
qed

lemma get_price_range_state: "\<exists>c. snd (get_price_range str_to_num fault req s) = log_call c s"
proof -
  let ?f = "PriceBetween (parseFloat str_to_num (query req ''min''))
              (parseFloat str_to_num (query req ''max''))"
  have "snd (get_price_range str_to_num fault req s) = log_call (PotionFind ?f) s"
    by (simp add: get_price_range_def Let_def snd_answer Potion_find_state)
  then show ?thesis ..
qed

lemma get_distinct_categories_state:
  "snd (get_distinct_categories fault req s) = log_call (PotionDistinct ''categories'') s"
  by (simp add: get_distinct_categories_def snd_answer Potion_distinct_state)

lemma get_fixed_pipeline_state:
  "snd (get_average_score_by_vendor g fault req s) = log_call (PotionAggregate AverageScoreByVendor) s"
  "snd (get_average_score_by_category g fault req s)
     = log_call (PotionAggregate AverageScoreByCategory) s"
  "snd (get_strength_flavor_ratio g fault req s) = log_call (PotionAggregate StrengthFlavorRatio) s"
  by (simp_all add: get_average_score_by_vendor_def get_average_score_by_category_def
      get_strength_flavor_ratio_def snd_answer Potion_aggregate_state)

lemma get_search_state:
  "snd (get_search g fault req s) = s \<or> (\<exists>c. snd (get_search g fault req s) = log_call c s)"
proof (cases "falsy (query req ''groupBy'') \<or> falsy (query req ''metric'')
      \<or> falsy (query req ''field'')")
  case True
  then show ?thesis by (simp add: get_search_def Let_def)
next
  case False
  let ?pl = "GroupStage (''$'' @ the (query req ''groupBy'')) (the (query req ''metric''))
               (''$'' @ the (query req ''metric'')) (''$'' @ the (query req ''field''))"
  have "snd (get_search g fault req s) = log_call (PotionAggregate ?pl) s"
    using False by (simp add: get_search_def Let_def snd_answer Potion_aggregate_state)
  then show ?thesis by blast
qed

text \<open>
  C10. Every GET handler of the potion router (listing, names, vendor, price range, distinct
  categories, the two averages, the ratio, the search) leaves the potion collection and the
  user collection as they were, whether the store call works or fails.
\<close>

theorem get_handlers_change_no_collection:
  "potions (snd (get_potions fault req s)) = potions s
     \<and> users (snd (get_potions fault req s)) = users s
   \<and> potions (snd (get_names fault req s)) = potions s
     \<and> users (snd (get_names fault req s)) = users s
   \<and> potions (snd (get_vendor fault req s)) = potions s
     \<and> users (snd (get_vendor fault req s)) = users s
   \<and> potions (snd (get_price_range str_to_num fault req s)) = potions s
     \<and> users (snd (get_price_range str_to_num fault req s)) = users s
   \<and> potions (snd (get_distinct_categories fault req s)) = potions s
     \<and> users (snd (get_distinct_categories fault req s)) = users s
   \<and> potions (snd (get_average_score_by_vendor g fault req s)) = potions s
     \<and> users (snd (get_average_score_by_vendor g fault req s)) = users s
   \<and> potions (snd (get_average_score_by_category g fault req s)) = potions s
     \<and> users (snd (get_average_score_by_category g fault req s)) = users s
   \<and> potions (snd (get_strength_flavor_ratio g fault req s)) = potions s
     \<and> users (snd (get_strength_flavor_ratio g fault req s)) = users s
   \<and> potions (snd (get_search g fault req s)) = potions s
     \<and> users (snd (get_search g fault req s)) = users s"
proof -
  obtain c1 where v: "snd (get_vendor fault req s) = log_call c1 s"
    using get_vendor_state by blast
  obtain c2 where p: "snd (get_price_range str_to_num fault req s) = log_call c2 s"
    using get_price_range_state by blast
  have se: "potions (snd (get_search g fault req s)) = potions s
     \<and> users (snd (get_search g fault req s)) = users s"
    using get_search_state [of g fault req s] by (auto simp: log_call_collections)
  show ?thesis
    by (simp add: get_potions_state get_names_state v p get_distinct_categories_state
        get_fixed_pipeline_state se log_call_collections)
qed

theorem get_handlers_change_no_collection_witness:
  "potions (snd (get_potions (Some (StoreFailure ''down'')) (demo_query []) category_store))
      = potions category_store
   \<and> potions (snd (get_search demo_engine None
        (demo_query [(''groupBy'', ''vendor_id''), (''metric'', ''avg''), (''field'', ''score'')])
        category_store)) = potions category_store"
  using get_handlers_change_no_collection
    [of "Some (StoreFailure ''down'')" "demo_query []" category_store]
    get_handlers_change_no_collection
    [of None "demo_query [(''groupBy'', ''vendor_id''), (''metric'', ''avg''), (''field'', ''score'')]"
      category_store _ demo_engine]
  by blast



section \<open>Store failures on the write paths\<close>

lemma create_potion_on_failure:
  "create_potion (Some err) oid req s
     = (status_json 400 (Error (err_message err)), log_call (PotionSave (body req)) s)"
  by (simp add: create_potion_def Potion_save_def)

lemma register_on_failure:
  assumes "name_chain (body req ''name'') = (n, [])"
    and "password_chain (body req ''password'') = (p, [])"
    and "err_code err \<noteq> Some 11000"
  shows "register um (Some err) oid req s
     = (status_json 400 (Error (err_message err)), log_call (UserSave n) s)"
  using assms by (simp add: register_saves User_save_def)

lemma trim_secret: "trim ''alice'' = ''alice''" "trim ''secret1'' = ''secret1''"
  by (simp_all add: trim_def is_space_def)

text \<open>
  C9. A failure of the store is to be answered 500, on \<^verbatim>\<open>POST /potions\<close> and on
  \<^verbatim>\<open>POST /auth/register\<close> in particular. Both handlers answer 400 with the error's
  message instead, the first for every error of \<^verbatim>\<open>save\<close>, the second for every error
  whose code is not 11000: here on a lost connection, with a valid session cookie and a
  valid registration form.
\<close>

theorem store_failure_on_write_is_answered_400:
  "post_potions demo_verify demo_env (Some (StoreFailure ''connection lost'')) 9 demo_new_potion
       empty_store
     = (status_json 400 (Error ''connection lost''),
        log_call (PotionSave (body demo_new_potion)) empty_store)
   \<and> register demo_model (Some (StoreFailure ''connection lost'')) 9
        (demo_form ''alice'' ''secret1'') empty_store
     = (status_json 400 (Error ''connection lost''), log_call (UserSave ''alice'') empty_store)"
proof -
  have auth: "authMiddleware demo_verify demo_env demo_new_potion
      = Next (demo_new_potion\<lparr>user := Some \<lparr>claims_id = 7, claims_name = ''alice''\<rparr>\<rparr>)"
    by (simp add: authMiddleware_def cookie_of_def demo_new_potion_def demo_verify_def Let_def
        trim_def is_space_def)
  have 1: "post_potions demo_verify demo_env (Some (StoreFailure ''connection lost'')) 9
       demo_new_potion empty_store
     = (status_json 400 (Error ''connection lost''),
        log_call (PotionSave (body demo_new_potion)) empty_store)"
    by (simp add: post_potions_def auth create_potion_on_failure)
  have n: "name_chain (body (demo_form ''alice'' ''secret1'') ''name'') = (''alice'', [])"
    by (simp add: name_chain_def demo_form_def toString_def trim_secret escape_alice)
  have p: "password_chain (body (demo_form ''alice'' ''secret1'') ''password'') = (''secret1'', [])"
    by (simp add: password_chain_def demo_form_def toString_def trim_secret)
  have 2: "register demo_model (Some (StoreFailure ''connection lost'')) 9
        (demo_form ''alice'' ''secret1'') empty_store
     = (status_json 400 (Error ''connection lost''), log_call (UserSave ''alice'') empty_store)"
    using register_on_failure [OF n p, of "StoreFailure ''connection lost''"] by simp
  from 1 2 show ?thesis by (intro conjI)
qed


end
